theory Spec2Isabelle
  imports
    Complex_Main
    "HOL-Library.Char_ord"
    "HOL-Library.List_Lexorder"
    "HOL-Library.Option_ord"
    "HOL-Library.Product_Lexorder"
begin

section \<open>Common values\<close>

text \<open>
  The exceptions the embedded Python can raise.  A function that can raise
  returns \<open>error + 'a\<close>, with \<open>Inl\<close> for the exception.
\<close>

datatype error =
    AssertionError
  | LookupError
  | IndexError
  | KeyError
  | ValueError
  | UnboundLocalError
  | AttributeError
  | IOError

text \<open>
  \<open>os.path.join a b\<close> on a POSIX system, for two components: an absolute
  second component replaces the first, otherwise the two are joined with
  exactly one separator.
\<close>

definition os_path_join :: "string \<Rightarrow> string \<Rightarrow> string" where
  "os_path_join a b =
     (if b \<noteq> [] \<and> hd b = CHR ''/'' then b
      else if a = [] \<or> last a = CHR ''/'' then a @ b
      else a @ ''/'' @ b)"

section \<open>\<open>micro_dl/utils/meta_utils.py\<close>: normalisation parameters\<close>

text \<open>
  The metadata tables of the repository are pandas data frames; a table is
  modelled as the list of its rows.  All tables share the four index columns,
  and the tables of frames and of tiles share the file name.
\<close>

record idx_rec =
  time_idx :: int
  channel_idx :: int
  slice_idx :: int
  pos_idx :: int

record meta_rec = idx_rec +
  file_name :: string

text \<open>
  One row of the frames-metadata table (\<open>frames_meta\<close>).  The columns
  \<open>fg_frac\<close>, \<open>zscore_median\<close> and \<open>zscore_iqr\<close> are optional:
  \<open>None\<close> stands for a missing column or a NaN cell.  Pixel intensities and
  the statistics computed from them are modelled as exact rationals.
\<close>

record frame_rec = meta_rec +
  dir_name :: string
  fg_frac :: "rat option"
  zscore_median :: "rat option"
  zscore_iqr :: "rat option"

text \<open>
  One row of the intensity-sample table (\<open>ints_meta\<close>): the identity of the
  frame the sample was taken from, the sampled intensity and the foreground
  fraction (\<open>None\<close> is NaN).  The columns carry the prefix \<open>i_\<close> here
  only to keep them apart from the columns of \<open>frame_rec\<close>.
\<close>

record ints_rec =
  i_dir_name :: string
  i_time_idx :: int
  i_channel_idx :: int
  i_slice_idx :: int
  i_pos_idx :: int
  intensity :: rat
  i_fg_frac :: "rat option"

text \<open>
  The value of the grouping columns \<open>agg_cols\<close> in a row.  The columns
  \<open>time_idx\<close>, \<open>channel_idx\<close> and \<open>dir_name\<close> belong to every choice of
  \<open>agg_cols\<close> the function makes; \<open>pos_idx\<close> and \<open>slice_idx\<close> are part of
  the key only when they are listed.
\<close>

type_synonym agg_key = "int \<times> int \<times> string \<times> int option \<times> int option"

definition frame_key :: "string list \<Rightarrow> frame_rec \<Rightarrow> agg_key" where
  "frame_key agg_cols r =
     (time_idx r, channel_idx r, dir_name r,
      (if ''pos_idx'' \<in> set agg_cols then Some (pos_idx r) else None),
      (if ''slice_idx'' \<in> set agg_cols then Some (slice_idx r) else None))"

definition ints_key :: "string list \<Rightarrow> ints_rec \<Rightarrow> agg_key" where
  "ints_key agg_cols r =
     (i_time_idx r, i_channel_idx r, i_dir_name r,
      (if ''pos_idx'' \<in> set agg_cols then Some (i_pos_idx r) else None),
      (if ''slice_idx'' \<in> set agg_cols then Some (i_slice_idx r) else None))"

text \<open>
  pandas' \<open>median\<close> and \<open>quantile q\<close> (linear interpolation, the default) of
  the values of one group; NaN (\<open>None\<close>) for an empty group.
\<close>

definition median :: "rat list \<Rightarrow> rat option" where
  "median xs =
     (let s = sort xs; n = length s in
      if n = 0 then None
      else if odd n then Some (s ! (n div 2))
      else Some ((s ! (n div 2 - 1) + s ! (n div 2)) / 2))"

definition quantile :: "rat \<Rightarrow> rat list \<Rightarrow> rat option" where
  "quantile q xs =
     (let s = sort xs; n = length s in
      if n = 0 then None
      else
        (let h = of_nat (n - 1) * q; lo = nat \<lfloor>h\<rfloor>; fr = h - of_nat lo in
         if fr = 0 \<or> n \<le> lo + 1 then Some (s ! min lo (n - 1))
         else Some (s ! lo + (s ! (lo + 1) - s ! lo) * fr)))"

text \<open>
  \<open>ints_meta[agg_cols + ['intensity']].groupby(agg_cols)\<close>: the group keys
  in sorted order, and the intensities of one group in row order.
\<close>

definition group_keys :: "string list \<Rightarrow> ints_rec list \<Rightarrow> agg_key list" where
  "group_keys agg_cols ints = sort (remdups (map (ints_key agg_cols) ints))"

definition group_values :: "string list \<Rightarrow> ints_rec list \<Rightarrow> agg_key \<Rightarrow> rat list" where
  "group_values agg_cols ints k =
     map intensity (filter (\<lambda>r. ints_key agg_cols r = k) ints)"

text \<open>
  The aggregated table \<open>ints_agg\<close> after \<open>reset_index\<close>: one row per group
  with the group key, \<open>zscore_median\<close> and \<open>zscore_iqr\<close> (upper quartile
  minus lower quartile; NaN if either is NaN).
\<close>

type_synonym agg_rec = "agg_key \<times> rat option \<times> rat option"

definition nan_minus :: "rat option \<Rightarrow> rat option \<Rightarrow> rat option" where
  "nan_minus a b = (case (a, b) of (Some x, Some y) \<Rightarrow> Some (x - y) | _ \<Rightarrow> None)"

definition ints_agg :: "string list \<Rightarrow> ints_rec list \<Rightarrow> agg_rec list" where
  "ints_agg agg_cols ints =
     map (\<lambda>k. (k,
                median (group_values agg_cols ints k),
                nan_minus (quantile (3 / 4) (group_values agg_cols ints k))
                          (quantile (1 / 4) (group_values agg_cols ints k))))
         (group_keys agg_cols ints)"

text \<open>
  \<open>pd.merge(frames_meta[cols_to_merge], ints_agg, how='left', on=agg_cols)\<close>.
  Selecting \<open>cols_to_merge\<close> drops the two z-score columns of the left table;
  every left row is then paired, in order, with each right row of the same key,
  and a left row without a partner is kept once with NaN in the right table's
  columns.
\<close>

definition merge_left :: "string list \<Rightarrow> frame_rec list \<Rightarrow> agg_rec list \<Rightarrow> frame_rec list" where
  "merge_left agg_cols frames agg =
     concat (map (\<lambda>f.
        (case filter (\<lambda>a. fst a = frame_key agg_cols f) agg of
           [] \<Rightarrow> [f\<lparr>zscore_median := None, zscore_iqr := None\<rparr>]
         | ms \<Rightarrow> map (\<lambda>a. f\<lparr>zscore_median := fst (snd a), zscore_iqr := snd (snd a)\<rparr>) ms))
        frames)"

text \<open>
  The row a left merge makes of one left row when no key occurs twice in the
  right table: the partner's values if there is a partner, NaN otherwise.
\<close>

definition merge_row :: "string list \<Rightarrow> agg_rec list \<Rightarrow> frame_rec \<Rightarrow> frame_rec" where
  "merge_row agg_cols agg f =
     (case map_of agg (frame_key agg_cols f) of
        None \<Rightarrow> f\<lparr>zscore_median := None, zscore_iqr := None\<rparr>
      | Some v \<Rightarrow> f\<lparr>zscore_median := fst v, zscore_iqr := snd v\<rparr>)"

text \<open>
  The \<open>elif\<close> chain of \<open>compute_zscore_params\<close> that chooses the grouping
  columns once \<open>normalize_im\<close> is known not to be \<open>None\<close>.
\<close>

definition agg_cols_of :: "string option \<Rightarrow> string list" where
  "agg_cols_of normalize_im =
     (if normalize_im = Some ''dataset''
        then [''time_idx'', ''channel_idx'', ''dir_name'']
      else if normalize_im = Some ''volume''
        then [''time_idx'', ''channel_idx'', ''dir_name'', ''pos_idx'']
      else [''time_idx'', ''channel_idx'', ''dir_name'', ''pos_idx'', ''slice_idx''])"

text \<open>
  \<open>ints_meta[ints_meta['fg_frac'] >= min_fraction]\<close>: a comparison with NaN
  is false, so a row without a foreground fraction is never kept.
\<close>

definition fg_frac_ge :: "rat \<Rightarrow> ints_rec \<Rightarrow> bool" where
  "fg_frac_ge min_fraction r =
     (case i_fg_frac r of None \<Rightarrow> False | Some f \<Rightarrow> min_fraction \<le> f)"

text \<open>
  \<open>compute_zscore_params\<close>.  The result is the returned table together with
  the file the function writes, if it writes one (path and content).  With
  \<open>normalize_im = None\<close> the two column assignments of the source are both to
  \<open>zscore_median\<close>, and the function returns without writing.
\<close>

definition compute_zscore_params ::
  "frame_rec list \<Rightarrow> ints_rec list \<Rightarrow> string \<Rightarrow> string option \<Rightarrow> rat
     \<Rightarrow> error + (frame_rec list \<times> (string \<times> frame_rec list) option)" where
  "compute_zscore_params frames_meta ints_meta input_dir normalize_im min_fraction =
     (if normalize_im \<notin> set [None, Some ''slice'', Some ''volume'', Some ''dataset'']
      then Inl AssertionError
      else if normalize_im = None then
        (let frames_meta1 = map (\<lambda>r. r\<lparr>zscore_median := Some 0\<rparr>) frames_meta;
             frames_meta2 = map (\<lambda>r. r\<lparr>zscore_median := Some 1\<rparr>) frames_meta1
         in Inr (frames_meta2, None))
      else
        (let agg_cols = agg_cols_of normalize_im;
             ints_meta1 = filter (fg_frac_ge min_fraction) ints_meta;
             frames_meta1 = merge_left agg_cols frames_meta (ints_agg agg_cols ints_meta1);
             frames_meta_filename = os_path_join input_dir ''frames_meta.csv''
         in Inr (frames_meta1, Some (frames_meta_filename, frames_meta1))))"

section \<open>\<open>micro_dl/preprocessing/generate_masks.py\<close>: the mask processor\<close>

text \<open>
  An index argument of the constructors (\<open>time_ids\<close>, \<open>channel_ids\<close>,
  \<open>slice_ids\<close>, \<open>pos_ids\<close>) is an integer (\<open>-1\<close> asks for all indices) or
  a list of integers.
\<close>

datatype ids_arg = IdInt int | IdList "int list"

text \<open>
  A Python dictionary is modelled as the list of its items in insertion order.
  The nested index dictionary maps a time index to a dictionary from channel
  index to a dictionary from position index to the list of slice indices.
\<close>

type_synonym pos_dict = "(int \<times> int list) list"
type_synonym ch_dict = "(int \<times> pos_dict) list"
type_synonym index_tree = "(int \<times> ch_dict) list"
type_synonym metadata_ids = "(string \<times> int list) list"

definition dict_get :: "('k \<times> 'v) list \<Rightarrow> 'k \<Rightarrow> error + 'v" where
  "dict_get d k = (case map_of d k of None \<Rightarrow> Inl KeyError | Some v \<Rightarrow> Inr v)"

text \<open>Running a function that can raise over a list: the first exception ends the run.\<close>

fun map_err :: "('a \<Rightarrow> error + 'b) \<Rightarrow> 'a list \<Rightarrow> error + 'b list" where
  "map_err f [] = Inr []"
| "map_err f (x # xs) =
     (case f x of
        Inl e \<Rightarrow> Inl e
      | Inr y \<Rightarrow> (case map_err f xs of Inl e \<Rightarrow> Inl e | Inr ys \<Rightarrow> Inr (y # ys)))"

text \<open>\<open>str\<close> of an integer and \<open>sep.join\<close>.\<close>

fun str_nat :: "nat \<Rightarrow> string" where
  "str_nat n =
     (if n < 10 then [''0123456789'' ! n]
      else str_nat (n div 10) @ [''0123456789'' ! (n mod 10)])"

definition str_int :: "int \<Rightarrow> string" where
  "str_int i = (if i < 0 then CHR ''-'' # str_nat (nat (- i)) else str_nat (nat i))"

fun str_join :: "string \<Rightarrow> string list \<Rightarrow> string" where
  "str_join sep [] = []"
| "str_join sep [x] = x"
| "str_join sep (x # y # ys) = x @ sep @ str_join sep (y # ys)"

text \<open>
  A primed name (\<open>input_dir'\<close>) is a parameter or a local variable of the
  source whose plain name is also the name of an attribute.
\<close>

text \<open>
  The functions of \<open>aux_utils\<close>, of the operating system and of
  \<open>skimage\<close> that the constructor calls are parameters of the model:
  \<^item> \<open>read_meta dir\<close> reads \<open>frames_meta.csv\<close> in \<open>dir\<close> and gives the
    column names and the rows;
  \<^item> \<open>read_ints_meta dir name\<close> reads a table of intensity samples;
  \<^item> \<open>validate_metadata_indices\<close> gives the dictionary of validated
    indices and, for a non-uniform structure, the nested index dictionary;
  \<^item> \<open>get_sub_meta\<close> selects the rows of the given indices;
  \<^item> \<open>makedirs\<close> is \<open>os.makedirs\<close> with \<open>exist_ok=True\<close>;
  \<^item> \<open>threshold_otsu\<close> is the Otsu threshold of a list of intensities;
  \<^item> \<open>is_identical\<close> is the outcome of Python's identity test \<open>is\<close>
    between the argument \<open>mask_type\<close> and a literal of the same value.
\<close>

record aux_env =
  read_meta :: "string \<Rightarrow> error + (string list \<times> frame_rec list)"
  read_ints_meta :: "string \<Rightarrow> string \<Rightarrow> error + ints_rec list"
  validate_metadata_indices ::
    "frame_rec list \<Rightarrow> ids_arg \<Rightarrow> ids_arg \<Rightarrow> ids_arg \<Rightarrow> ids_arg \<Rightarrow> bool
       \<Rightarrow> error + (metadata_ids \<times> index_tree option)"
  get_sub_meta ::
    "frame_rec list \<Rightarrow> int list \<Rightarrow> int list \<Rightarrow> int list \<Rightarrow> int list
       \<Rightarrow> error + frame_rec list"
  makedirs :: "string \<Rightarrow> error + unit"
  threshold_otsu :: "rat list \<Rightarrow> error + rat"
  is_identical :: bool

text \<open>The attributes of a \<open>MaskProcessor\<close> object.\<close>

record mask_processor =
  input_dir :: string
  output_dir :: string
  flat_field_dir :: "string option"
  num_workers :: int
  frames_metadata :: "frame_rec list"
  mask_channel :: int
  frames_meta_sub :: "frame_rec list"
  channel_ids :: "int list"
  mask_dir :: string
  int2str_len :: int
  uniform_struct :: bool
  nested_id_dict :: "index_tree option"
  mask_type :: string
  ints_metadata :: "ints_rec list option"
  channel_thr_df :: "(string \<times> int \<times> rat) list option"
  mask_ext :: string

text \<open>
  \<open>get_channel_thr_df\<close>: the samples of the channels in \<open>channel_ids\<close>,
  grouped by directory and channel (groups in sorted key order), one Otsu
  threshold per group.
\<close>

definition get_channel_thr_df ::
  "aux_env \<Rightarrow> ints_rec list \<Rightarrow> int list \<Rightarrow> error + (string \<times> int \<times> rat) list" where
  "get_channel_thr_df env ints_metadata' channel_ids' =
     (let ints_meta_sub = filter (\<lambda>r. i_channel_idx r \<in> set channel_ids') ints_metadata';
          keys = sort (remdups (map (\<lambda>r. (i_dir_name r, i_channel_idx r)) ints_meta_sub))
      in map_err (\<lambda>k.
           (case threshold_otsu env
                   (map intensity
                      (filter (\<lambda>r. (i_dir_name r, i_channel_idx r) = k) ints_meta_sub)) of
              Inl e \<Rightarrow> Inl e
            | Inr thr \<Rightarrow> Inr (fst k, snd k, thr)))
         keys)"

text \<open>
  The first part of \<open>MaskProcessor.__init__\<close>, up to the check of
  \<open>mask_type\<close>: the metadata is read and validated and the mask directory is
  created.  It yields the frames metadata, the mask channel, the validated
  sub-table, the channel list, the mask directory and the nested index
  dictionary.
\<close>

definition mask_channel_of :: "frame_rec list \<Rightarrow> int option \<Rightarrow> error + int" where
  "mask_channel_of frames_metadata' mask_channel' =
     (case mask_channel' of
        None \<Rightarrow>
          (case map channel_idx frames_metadata' of
             [] \<Rightarrow> Inl ValueError
           | c # cs \<Rightarrow> Inr (fold max cs c + 1))
      | Some c \<Rightarrow> Inr c)"

definition MaskProcessor_read ::
  "aux_env \<Rightarrow> string \<Rightarrow> string \<Rightarrow> ids_arg \<Rightarrow> ids_arg \<Rightarrow> ids_arg \<Rightarrow> ids_arg \<Rightarrow> bool
     \<Rightarrow> string \<Rightarrow> int option
     \<Rightarrow> error + (frame_rec list \<times> int \<times> frame_rec list \<times> int list \<times> string \<times> index_tree option)"
  where
  "MaskProcessor_read env input_dir' output_dir' channel_ids' time_ids slice_ids pos_ids
       uniform_struct' mask_type' mask_channel' =
     (case read_meta env input_dir' of
        Inl e \<Rightarrow> Inl e
      | Inr (columns, rows) \<Rightarrow>
     (let frames_metadata' =
            (if ''dir_name'' \<notin> set columns
             then map (\<lambda>r. r\<lparr>dir_name := input_dir'\<rparr>) rows else rows)
      in
     (case mask_channel_of frames_metadata' mask_channel' of
        Inl e \<Rightarrow> Inl e
      | Inr self_mask_channel \<Rightarrow>
     (case validate_metadata_indices env frames_metadata' time_ids channel_ids' slice_ids pos_ids
             uniform_struct' of
        Inl e \<Rightarrow> Inl e
      | Inr (metadata_ids, nested_id_dict') \<Rightarrow>
     (case dict_get metadata_ids ''time_ids'' of Inl e \<Rightarrow> Inl e | Inr m_time_ids \<Rightarrow>
     (case dict_get metadata_ids ''channel_ids'' of Inl e \<Rightarrow> Inl e | Inr m_channel_ids \<Rightarrow>
     (case dict_get metadata_ids ''slice_ids'' of Inl e \<Rightarrow> Inl e | Inr m_slice_ids \<Rightarrow>
     (case dict_get metadata_ids ''pos_ids'' of Inl e \<Rightarrow> Inl e | Inr m_pos_ids \<Rightarrow>
     (case get_sub_meta env frames_metadata' m_time_ids m_channel_ids m_slice_ids m_pos_ids of
        Inl e \<Rightarrow> Inl e
      | Inr frames_meta_sub' \<Rightarrow>
     (let output_channels =
            (if mask_type' = ''borders_weight_loss_map'' \<and> is_identical env
             then (case mask_channel' of None \<Rightarrow> ''None'' | Some c \<Rightarrow> str_int c)
             else str_join ''-'' (map str_int m_channel_ids));
          self_mask_dir = os_path_join output_dir' (''mask_channels_'' @ output_channels)
      in
     (case makedirs env self_mask_dir of
        Inl e \<Rightarrow> Inl e
      | Inr _ \<Rightarrow>
          Inr (frames_metadata', self_mask_channel, frames_meta_sub', m_channel_ids,
               self_mask_dir, nested_id_dict'))))))))))))"

text \<open>
  \<open>MaskProcessor.__init__\<close>.  After the first part comes the assertion on
  \<open>mask_type\<close>; for \<open>'dataset otsu'\<close> the intensity samples are read and the
  thresholds computed.
\<close>

definition MaskProcessor_init ::
  "aux_env \<Rightarrow> string \<Rightarrow> string \<Rightarrow> ids_arg \<Rightarrow> string option \<Rightarrow> ids_arg \<Rightarrow> ids_arg \<Rightarrow> ids_arg
     \<Rightarrow> int \<Rightarrow> bool \<Rightarrow> int \<Rightarrow> string \<Rightarrow> int option \<Rightarrow> string \<Rightarrow> error + mask_processor"
  where
  "MaskProcessor_init env input_dir' output_dir' channel_ids' flat_field_dir' time_ids slice_ids
       pos_ids int2str_len' uniform_struct' num_workers' mask_type' mask_channel' mask_ext' =
     (case MaskProcessor_read env input_dir' output_dir' channel_ids' time_ids slice_ids pos_ids
             uniform_struct' mask_type' mask_channel' of
        Inl e \<Rightarrow> Inl e
      | Inr (self_frames_metadata, self_mask_channel, self_frames_meta_sub, self_channel_ids,
             self_mask_dir, self_nested_id_dict) \<Rightarrow>
     (let self =
            \<lparr>input_dir = input_dir', output_dir = output_dir', flat_field_dir = flat_field_dir',
             num_workers = num_workers', frames_metadata = self_frames_metadata,
             mask_channel = self_mask_channel, frames_meta_sub = self_frames_meta_sub,
             channel_ids = self_channel_ids, mask_dir = self_mask_dir,
             int2str_len = int2str_len', uniform_struct = uniform_struct',
             nested_id_dict = self_nested_id_dict, mask_type = mask_type',
             ints_metadata = None, channel_thr_df = None, mask_ext = mask_ext'\<rparr>
      in
      if mask_type' \<notin> set [''otsu'', ''unimodal'', ''dataset otsu'', ''borders_weight_loss_map'']
      then Inl AssertionError
      else if mask_type' = ''dataset otsu'' then
        (case read_ints_meta env input_dir' ''intensity_meta.csv'' of
           Inl e \<Rightarrow> Inl e
         | Inr ints \<Rightarrow>
             (case get_channel_thr_df env ints self_channel_ids of
                Inl e \<Rightarrow> Inl e
              | Inr thr_df \<Rightarrow>
                  Inr (self\<lparr>ints_metadata := Some ints, channel_thr_df := Some thr_df\<rparr>)))
      else Inr self))"

section \<open>\<open>micro_dl/preprocessing/tile_nonuniform_images.py\<close>: the non-uniform tiler\<close>

subsection \<open>Dictionaries, tables and files\<close>

text \<open>
  \<open>d[k] = v\<close> keeps the position of a key that is present and appends a new
  key; \<open>del d[k]\<close> raises \<open>KeyError\<close> for a key that is absent.
\<close>

fun dict_set :: "'k \<Rightarrow> 'v \<Rightarrow> ('k \<times> 'v) list \<Rightarrow> ('k \<times> 'v) list" where
  "dict_set k v [] = [(k, v)]"
| "dict_set k v ((k', v') # d) = (if k' = k then (k, v) # d else (k', v') # dict_set k v d)"

definition dict_del :: "'k \<Rightarrow> ('k \<times> 'v) list \<Rightarrow> error + ('k \<times> 'v) list" where
  "dict_del k d =
     (if k \<in> fst ` set d then Inr (filter (\<lambda>kv. fst kv \<noteq> k) d) else Inl KeyError)"

text \<open>Running a function that yields lists over a list and chaining the results.\<close>

definition concat_map_err :: "('a \<Rightarrow> error + 'b list) \<Rightarrow> 'a list \<Rightarrow> error + 'b list" where
  "concat_map_err f xs = (case map_err f xs of Inl e \<Rightarrow> Inl e | Inr ys \<Rightarrow> Inr (concat ys))"

text \<open>\<open>pd.concat\<close> of a list of tables raises \<open>ValueError\<close> when the list is empty.\<close>

definition pd_concat :: "'a list list \<Rightarrow> error + 'a list" where
  "pd_concat dfs = (if dfs = [] then Inl ValueError else Inr (concat dfs))"

text \<open>One row of the table of tiles.\<close>

record tile_rec = meta_rec +
  row_start :: int
  col_start :: int

text \<open>
  The coordinates of one tile, as the rectangle
  \<open>(row_start, row_end, col_start, col_end)\<close>, and \<open>np.any\<close> of a list of
  them: some number in it is not zero.
\<close>

type_synonym tile_index = "int \<times> int \<times> int \<times> int"

definition np_any :: "tile_index list \<Rightarrow> bool" where
  "np_any tis = list_ex (\<lambda>(r0, r1, c0, c1). r0 \<noteq> 0 \<or> r1 \<noteq> 0 \<or> c0 \<noteq> 0 \<or> c1 \<noteq> 0) tis"

text \<open>
  The part of the file system the tiler touches: the metadata tables written
  as csv files, by path, the tile files written, and the directories.
\<close>

record fs =
  csv_files :: "string \<Rightarrow> tile_rec list option"
  tile_files :: "string list"
  dirs :: "string list"

definition os_path_exists :: "fs \<Rightarrow> string \<Rightarrow> bool" where
  "os_path_exists f p = (csv_files f p \<noteq> None \<or> p \<in> set (tile_files f) \<or> p \<in> set (dirs f))"

subsection \<open>The tiler object and its collaborators\<close>

text \<open>
  The attributes of an \<open>ImageTilerNonUniform\<close> object that the methods
  below read.  \<open>channel_depth\<close> is a dictionary; \<open>normalize_channels\<close> is
  indexed by channel and is given by the items for which indexing succeeds.
\<close>

record tiler =
  tile_dir :: string
  tile_size :: "int \<times> int"
  channel_ids :: "int list"
  channel_depth :: "(int \<times> int) list"
  normalize_channels :: "(int \<times> bool) list"
  num_workers :: int
  frames_metadata :: "frame_rec list"
  nested_id_dict :: "index_tree option"
  time_ids :: ids_arg
  slice_ids :: ids_arg
  pos_ids :: ids_arg
  mask_depth :: "int option"

text \<open>The argument tuple of one tiling or cropping job.\<close>

record crop_tile_args = idx_rec +
  task_type :: string
  mask_dir :: "string option"
  tile_indices :: "tile_index list option"

text \<open>
  Two collaborators are parameters of the model: \<open>tile_image_save\<close>, the
  worker of \<open>mp_tile_save\<close>, which reads the frames of one job, tiles them and
  gives the tile records (or raises), and \<open>tile_file_name\<close>, the name under
  which a cropped tile is saved.
\<close>

record tile_env =
  tile_image_save :: "crop_tile_args \<Rightarrow> error + tile_rec list"
  tile_file_name :: "int \<Rightarrow> int \<Rightarrow> int \<Rightarrow> int \<Rightarrow> tile_index \<Rightarrow> string"

text \<open>
  Modelled from the spec: \<open>aux_utils.adjust_slice_margins\<close> is not among the
  sources.  The spec: a stack of \<open>depth\<close> consecutive slices must exist
  centred at each selected slice (depth 5 at slice \<open>k\<close> needs slices
  \<open>k - 2\<close> to \<open>k + 2\<close>); candidate slices whose window exceeds the available
  slices are dropped.
\<close>

definition adjust_slice_margins :: "int list \<Rightarrow> int \<Rightarrow> int list" where
  "adjust_slice_margins slice_ids' depth =
     (let margin = depth div 2
      in filter (\<lambda>k. list_all (\<lambda>j. j \<in> set slice_ids') [k - margin..k + margin]) slice_ids')"

text \<open>
  Modelled from the spec: \<open>ImageTilerUniform._get_tile_indices\<close> is not among
  the sources.  The spec: the tile coordinates previously recorded for the
  given channel at the given time, position and slice are looked up in the
  table of tiles; a tile is a crop of the configured tile size at its origin.
\<close>

definition get_tile_indices ::
  "tiler \<Rightarrow> tile_rec list \<Rightarrow> int \<Rightarrow> int \<Rightarrow> int \<Rightarrow> int \<Rightarrow> tile_index list" where
  "get_tile_indices self tiled_meta time_idx' channel_idx' pos_idx' slice_idx' =
     map (\<lambda>r. (row_start r, row_start r + fst (tile_size self),
               col_start r, col_start r + snd (tile_size self)))
       (filter (\<lambda>r. channel_idx r = channel_idx' \<and> slice_idx r = slice_idx'
                     \<and> pos_idx r = pos_idx' \<and> time_idx r = time_idx')
          tiled_meta)"

text \<open>
  Modelled from the spec: \<open>ImageTilerUniform.get_crop_tile_args\<close> is not
  among the sources.  The spec: a job is a pure function of its argument
  tuple; the tuple names the frame and carries the mask directory or the tile
  coordinates.
\<close>

definition get_crop_tile_args ::
  "int \<Rightarrow> int \<Rightarrow> int \<Rightarrow> int \<Rightarrow> string \<Rightarrow> string option \<Rightarrow> tile_index list option
     \<Rightarrow> crop_tile_args" where
  "get_crop_tile_args channel_idx' time_idx' slice_idx' pos_idx' task_type' mask_dir'
       tile_indices' =
     \<lparr>time_idx = time_idx', channel_idx = channel_idx', slice_idx = slice_idx',
      pos_idx = pos_idx', task_type = task_type', mask_dir = mask_dir',
      tile_indices = tile_indices'\<rparr>"

text \<open>
  Modelled from the spec: the worker of \<open>mp_crop_save\<close> is not among the
  sources.  The spec: exactly the given coordinates are cropped from the
  current channel's frame, and one tile record is made per coordinate, with
  the frame's indices and the coordinate's origin.
\<close>

definition crop_at_indices_save :: "tile_env \<Rightarrow> crop_tile_args \<Rightarrow> tile_rec list" where
  "crop_at_indices_save env a =
     map (\<lambda>ti.
           \<lparr>time_idx = time_idx a, channel_idx = channel_idx a, slice_idx = slice_idx a,
            pos_idx = pos_idx a,
            file_name = tile_file_name env (time_idx a) (channel_idx a) (slice_idx a) (pos_idx a) ti,
            row_start = fst ti, col_start = fst (snd (snd ti))\<rparr>)
       (case tile_indices a of None \<Rightarrow> [] | Some tis \<Rightarrow> tis)"

text \<open>
  \<open>mp_tile_save\<close> and \<open>mp_crop_save\<close> run the worker on every job and give
  the results in the order of the jobs.
\<close>

definition mp_tile_save :: "tile_env \<Rightarrow> crop_tile_args list \<Rightarrow> error + tile_rec list list" where
  "mp_tile_save env fn_args = map_err (tile_image_save env) fn_args"

definition mp_crop_save :: "tile_env \<Rightarrow> crop_tile_args list \<Rightarrow> tile_rec list list" where
  "mp_crop_save env fn_args = map (crop_at_indices_save env) fn_args"

text \<open>
  Writing the tiles of a table and the table itself into the tile directory.
  \<open>sort_values(by=['file_name'])\<close> is modelled by a stable sort.
\<close>

definition save_tiles :: "string \<Rightarrow> tile_rec list \<Rightarrow> fs \<Rightarrow> fs" where
  "save_tiles d recs f = f\<lparr>tile_files := tile_files f @ map (\<lambda>r. os_path_join d (file_name r)) recs\<rparr>"

definition to_csv :: "string \<Rightarrow> tile_rec list \<Rightarrow> fs \<Rightarrow> fs" where
  "to_csv p df f = f\<lparr>csv_files := (csv_files f)(p \<mapsto> df)\<rparr>"

subsection \<open>\<open>tile_first_channel\<close>\<close>

text \<open>
  The loop of \<open>tile_first_channel\<close> that collects the jobs.  The lookup in
  \<open>normalize_channels\<close> is made for every channel entry unless a mask is tiled;
  its value is not used, but it raises when the channel cannot be indexed.
\<close>

definition tile_first_channel_fn_args ::
  "tiler \<Rightarrow> index_tree \<Rightarrow> int \<Rightarrow> string option \<Rightarrow> bool \<Rightarrow> error + crop_tile_args list" where
  "tile_first_channel_fn_args self channel0_ids channel0_depth cur_mask_dir is_mask =
     concat_map_err (\<lambda>(tp_idx, tp_dict).
       concat_map_err (\<lambda>(ch_idx, ch_dict).
         (case (if is_mask then Inr False
                else (case map_of (normalize_channels self) ch_idx of
                        None \<Rightarrow> Inl LookupError | Some b \<Rightarrow> Inr b)) of
            Inl e \<Rightarrow> Inl e
          | Inr normalize_im \<Rightarrow>
              Inr (concat (map (\<lambda>(pos_idx', sl_idx_list).
                     map (\<lambda>sl_idx.
                            get_crop_tile_args ch_idx tp_idx sl_idx pos_idx' ''tile''
                              cur_mask_dir None)
                       (adjust_slice_margins sl_idx_list channel0_depth))
                   ch_dict))))
         tp_dict)
       channel0_ids"

text \<open>
  \<open>tile_first_channel\<close>: the jobs are run, their tables concatenated and
  sorted by file name, and the table is written to \<open>frames_meta.csv\<close> in the
  tile directory.  The result is the table and the file system after the call.
  When the call raises, the files its workers may have written are not
  tracked.
\<close>

definition tile_first_channel ::
  "tile_env \<Rightarrow> tiler \<Rightarrow> index_tree \<Rightarrow> int \<Rightarrow> string option \<Rightarrow> bool \<Rightarrow> fs
     \<Rightarrow> error + (tile_rec list \<times> fs)" where
  "tile_first_channel env self channel0_ids channel0_depth cur_mask_dir is_mask f =
     (case tile_first_channel_fn_args self channel0_ids channel0_depth cur_mask_dir is_mask of
        Inl e \<Rightarrow> Inl e
      | Inr fn_args \<Rightarrow>
     (case mp_tile_save env fn_args of
        Inl e \<Rightarrow> Inl e
      | Inr ch0_meta_df_list \<Rightarrow>
     (case pd_concat ch0_meta_df_list of
        Inl e \<Rightarrow> Inl e
      | Inr ch0_meta_df \<Rightarrow>
          (let ch0_meta_df1 = sort_key file_name ch0_meta_df
           in Inr (ch0_meta_df1,
                   to_csv (os_path_join (tile_dir self) ''frames_meta.csv'') ch0_meta_df1
                     (save_tiles (tile_dir self) ch0_meta_df f))))))"

subsection \<open>\<open>tile_remaining_channels\<close>\<close>

text \<open>
  The loop of \<open>tile_remaining_channels\<close> that collects the jobs.  The depth
  of the channel is looked up for every position entry, the tile coordinates
  of the already tiled channel \<open>tiled_ch_id\<close> for every retained slice;
  \<open>self.channel_ids.index(ch_idx)\<close> raises \<open>ValueError\<close> for a channel that
  is not in the list; a job is made only when \<open>np.any\<close> of the coordinates
  holds.
\<close>

definition tile_remaining_channels_fn_args ::
  "tiler \<Rightarrow> index_tree \<Rightarrow> int \<Rightarrow> tile_rec list \<Rightarrow> error + crop_tile_args list" where
  "tile_remaining_channels_fn_args self nested_id_dict' tiled_ch_id cur_meta_df =
     concat_map_err (\<lambda>(tp_idx, tp_dict).
       concat_map_err (\<lambda>(ch_idx, ch_dict).
         concat_map_err (\<lambda>(pos_idx', sl_idx_list).
           (case dict_get (channel_depth self) ch_idx of
              Inl e \<Rightarrow> Inl e
            | Inr depth \<Rightarrow>
                concat_map_err (\<lambda>sl_idx.
                  (let cur_tile_indices =
                         get_tile_indices self cur_meta_df tp_idx tiled_ch_id pos_idx' sl_idx
                   in if ch_idx \<notin> set (channel_ids self) then Inl ValueError
                      else if np_any cur_tile_indices
                        then Inr [get_crop_tile_args ch_idx tp_idx sl_idx pos_idx' ''crop'' None
                                    (Some cur_tile_indices)]
                      else Inr []))
                  (adjust_slice_margins sl_idx_list depth)))
           ch_dict)
         tp_dict)
       nested_id_dict'"

text \<open>
  The tile records \<open>tile_remaining_channels\<close> produces: the concatenated
  results of the cropping jobs.
\<close>

definition tile_remaining_channels_records ::
  "tile_env \<Rightarrow> tiler \<Rightarrow> index_tree \<Rightarrow> int \<Rightarrow> tile_rec list \<Rightarrow> error + tile_rec list" where
  "tile_remaining_channels_records env self nested_id_dict' tiled_ch_id cur_meta_df =
     (case tile_remaining_channels_fn_args self nested_id_dict' tiled_ch_id cur_meta_df of
        Inl e \<Rightarrow> Inl e
      | Inr fn_args \<Rightarrow> pd_concat (mp_crop_save env fn_args))"

text \<open>
  \<open>tile_remaining_channels\<close>: the new records are appended to the table of
  the tiled channel, and the sorted table replaces \<open>frames_meta.csv\<close>.
\<close>

definition tile_remaining_channels ::
  "tile_env \<Rightarrow> tiler \<Rightarrow> index_tree \<Rightarrow> int \<Rightarrow> tile_rec list \<Rightarrow> fs \<Rightarrow> error + fs" where
  "tile_remaining_channels env self nested_id_dict' tiled_ch_id cur_meta_df f =
     (case tile_remaining_channels_records env self nested_id_dict' tiled_ch_id cur_meta_df of
        Inl e \<Rightarrow> Inl e
      | Inr tiled_metadata \<Rightarrow>
          (let tiled_metadata1 = cur_meta_df @ tiled_metadata;
               tiled_metadata2 = sort_key file_name tiled_metadata1
           in Inr (to_csv (os_path_join (tile_dir self) ''frames_meta.csv'') tiled_metadata2
                     (save_tiles (tile_dir self) tiled_metadata f))))"

subsection \<open>\<open>tile_stack\<close>\<close>

text \<open>
  The loops of \<open>tile_stack\<close> that split the index dictionary.  The inner
  loop visits the channels of one time point: at the channel \<open>ch_to_tile\<close> it
  assigns the local variable \<open>ch0_dict\<close> and deletes the entry from the copy.
  The state is the value of \<open>ch0_dict\<close> (\<open>None\<close> while it is unassigned) and
  the copy.
\<close>

fun tile_stack_channels ::
  "int \<Rightarrow> int \<Rightarrow> ch_dict \<Rightarrow> ch_dict option \<times> index_tree
     \<Rightarrow> error + (ch_dict option \<times> index_tree)" where
  "tile_stack_channels ch_to_tile tp_idx [] st = Inr st"
| "tile_stack_channels ch_to_tile tp_idx ((ch_idx, ch_dict) # rest) (ch0_dict, nested_id_dict_copy) =
     (if ch_idx = ch_to_tile then
        (case dict_get nested_id_dict_copy tp_idx of
           Inl e \<Rightarrow> Inl e
         | Inr tp_copy \<Rightarrow>
        (case dict_del ch_idx tp_copy of
           Inl e \<Rightarrow> Inl e
         | Inr tp_copy1 \<Rightarrow>
             tile_stack_channels ch_to_tile tp_idx rest
               (Some [(ch_idx, ch_dict)], dict_set tp_idx tp_copy1 nested_id_dict_copy)))
      else tile_stack_channels ch_to_tile tp_idx rest (ch0_dict, nested_id_dict_copy))"

text \<open>
  The outer loop visits the time points.  After the channels of a time point
  it stores \<open>ch0_dict\<close> under the time point, whether or not the inner loop
  has assigned it for this time point; reading it while it is unassigned
  raises \<open>UnboundLocalError\<close>.
\<close>

fun tile_stack_times ::
  "int \<Rightarrow> index_tree \<Rightarrow> ch_dict option \<times> index_tree \<times> index_tree
     \<Rightarrow> error + (index_tree \<times> index_tree)" where
  "tile_stack_times ch_to_tile [] (ch0_dict, nested_id_dict_copy, ch0_ids) =
     Inr (ch0_ids, nested_id_dict_copy)"
| "tile_stack_times ch_to_tile ((tp_idx, tp_dict) # rest) (ch0_dict, nested_id_dict_copy, ch0_ids) =
     (case tile_stack_channels ch_to_tile tp_idx tp_dict (ch0_dict, nested_id_dict_copy) of
        Inl e \<Rightarrow> Inl e
      | Inr (ch0_dict1, nested_id_dict_copy1) \<Rightarrow>
          (case ch0_dict1 of
             None \<Rightarrow> Inl UnboundLocalError
           | Some d \<Rightarrow>
               tile_stack_times ch_to_tile rest
                 (ch0_dict1, nested_id_dict_copy1, dict_set tp_idx d ch0_ids)))"

text \<open>
  \<open>ch0_ids\<close> and the copy with the first channel removed, as \<open>tile_stack\<close>
  builds them from \<open>self.nested_id_dict\<close>.
\<close>

definition tile_stack_ids :: "index_tree \<Rightarrow> int \<Rightarrow> error + (index_tree \<times> index_tree)" where
  "tile_stack_ids nested_id_dict' ch_to_tile =
     tile_stack_times ch_to_tile nested_id_dict' (None, nested_id_dict', [])"

text \<open>
  \<open>tile_stack\<close>.  The result is the object after the call, whose
  \<open>channel_ids\<close> the call changes, and the file system after the call or the
  exception raised.
\<close>

definition tile_stack :: "tile_env \<Rightarrow> tiler \<Rightarrow> fs \<Rightarrow> tiler \<times> (error + fs)" where
  "tile_stack env self f =
     (case channel_ids self of
        [] \<Rightarrow> (self, Inl IndexError)
      | ch_to_tile # channel_ids_rest \<Rightarrow>
     (case dict_get (channel_depth self) ch_to_tile of
        Inl e \<Rightarrow> (self, Inl e)
      | Inr ch_depth \<Rightarrow>
     (case nested_id_dict self of
        None \<Rightarrow> (self, Inl AttributeError)
      | Some nested_id_dict' \<Rightarrow>
     (case tile_stack_ids nested_id_dict' ch_to_tile of
        Inl e \<Rightarrow> (self, Inl e)
      | Inr (ch0_ids, nested_id_dict_copy) \<Rightarrow>
     (case tile_first_channel env self ch0_ids ch_depth None False f of
        Inl e \<Rightarrow> (self, Inl e)
      | Inr (meta_df, f1) \<Rightarrow>
          (let self1 = self\<lparr>channel_ids := channel_ids_rest\<rparr>
           in if channel_ids self1 \<noteq> []
              then (self1, tile_remaining_channels env self1 nested_id_dict_copy ch_to_tile
                             meta_df f1)
              else (self1, Inr f1)))))))"

subsection \<open>\<open>tile_mask_stack\<close>\<close>

text \<open>
  The loop of \<open>tile_mask_stack\<close> that restricts the index dictionary of the
  masks to the mask channel: the entry of a time point is stored where the
  channel is found.
\<close>

definition mask_ch_ids_of :: "index_tree \<Rightarrow> int \<Rightarrow> index_tree" where
  "mask_ch_ids_of mask_nested_id_dict mask_channel' =
     fold (\<lambda>(tp_idx, tp_dict) mask_ch_ids.
             fold (\<lambda>(ch_idx, ch_dict) mask_ch_ids1.
                     if ch_idx = mask_channel'
                     then dict_set tp_idx [(mask_channel', ch_dict)] mask_ch_ids1
                     else mask_ch_ids1)
               tp_dict mask_ch_ids)
       mask_nested_id_dict []"

definition tile_mask_stack ::
  "aux_env \<Rightarrow> tile_env \<Rightarrow> tiler \<Rightarrow> string \<Rightarrow> int \<Rightarrow> int \<Rightarrow> fs \<Rightarrow> tiler \<times> (error + fs)" where
  "tile_mask_stack aux env self mask_dir' mask_channel' mask_depth' f =
     (case map snd (channel_depth self) of
        [] \<Rightarrow> (self, Inl ValueError)
      | d # ds \<Rightarrow>
     (if \<not> mask_depth' \<le> fold max ds d then (self, Inl AssertionError)
      else
     (let self1 = self\<lparr>mask_depth := Some mask_depth'\<rparr> in
     (case read_meta aux mask_dir' of
        Inl e \<Rightarrow> (self1, Inl e)
      | Inr (columns, mask_meta_df) \<Rightarrow>
     (case validate_metadata_indices aux mask_meta_df (time_ids self1) (IdInt mask_channel')
             (slice_ids self1) (pos_ids self1) False of
        Inl e \<Rightarrow> (self1, Inl e)
      | Inr (metadata_ids, None) \<Rightarrow> (self1, Inl AttributeError)
      | Inr (metadata_ids, Some mask_nested_id_dict) \<Rightarrow>
     (case tile_first_channel env self1 (mask_ch_ids_of mask_nested_id_dict mask_channel')
             mask_depth' (Some mask_dir') True f of
        Inl e \<Rightarrow> (self1, Inl e)
      | Inr (meta_df, f1) \<Rightarrow>
     (case nested_id_dict self1 of
        None \<Rightarrow> (self1, Inl AttributeError)
      | Some nested_id_dict' \<Rightarrow>
          (self1, tile_remaining_channels env self1 nested_id_dict' mask_channel' meta_df f1))))))))"

subsection \<open>The constructor\<close>

text \<open>
  \<open>ImageTilerNonUniform.__init__\<close>.  The constructor of the base class
  \<open>ImageTilerUniform\<close> is a parameter: \<open>super_init\<close> stands for it, applied to
  the arguments of the call; from a file system it gives the initialised
  object or an exception, and the file system it leaves (it creates the tile
  directory).  The result is the new object or the exception raised, and the
  file system after the call.
\<close>

definition ImageTilerNonUniform_init ::
  "aux_env \<Rightarrow> (fs \<Rightarrow> (error + tiler) \<times> fs) \<Rightarrow> ids_arg \<Rightarrow> ids_arg \<Rightarrow> ids_arg \<Rightarrow> ids_arg \<Rightarrow> fs
     \<Rightarrow> (error + tiler) \<times> fs" where
  "ImageTilerNonUniform_init aux super_init time_ids' channel_ids' slice_ids' pos_ids' f =
     (case super_init f of
        (Inl e, f1) \<Rightarrow> (Inl e, f1)
      | (Inr self, f1) \<Rightarrow>
     (case validate_metadata_indices aux (frames_metadata self) time_ids' channel_ids'
             slice_ids' pos_ids' False of
        Inl e \<Rightarrow> (Inl e, f1)
      | Inr (metadata_ids, nested_id_dict') \<Rightarrow>
          (let self1 = self\<lparr>nested_id_dict := nested_id_dict'\<rparr>;
               meta_path = os_path_join (tile_dir self1) ''frames_meta.csv''
           in if os_path_exists f1 meta_path then (Inl AssertionError, f1)
              else (Inr self1, f1))))"

subsection \<open>Notions used to state the properties\<close>

text \<open>
  The cropping job \<open>tile_remaining_channels\<close> makes for one slice of one
  channel, and whether an index dictionary has a given leaf.
\<close>

definition crop_job_of ::
  "tiler \<Rightarrow> tile_rec list \<Rightarrow> int \<Rightarrow> int \<Rightarrow> int \<Rightarrow> int \<Rightarrow> int \<Rightarrow> crop_tile_args" where
  "crop_job_of self cur_meta_df tiled_ch_id tp_idx ch_idx pos sl_idx =
     get_crop_tile_args ch_idx tp_idx sl_idx pos ''crop'' None
       (Some (get_tile_indices self cur_meta_df tp_idx tiled_ch_id pos sl_idx))"

definition index_tree_has :: "index_tree \<Rightarrow> int \<Rightarrow> int \<Rightarrow> int \<Rightarrow> int \<Rightarrow> bool" where
  "index_tree_has tree tp ch pos sl =
     list_ex (\<lambda>(tp_idx, tp_dict). tp_idx = tp \<and>
       list_ex (\<lambda>(ch_idx, ch_dict). ch_idx = ch \<and>
         list_ex (\<lambda>(pos_idx', sl_idx_list). pos_idx' = pos \<and> sl \<in> set sl_idx_list) ch_dict)
       tp_dict)
     tree"

section \<open>Concrete inputs\<close>

text \<open>A frame and intensity samples used as concrete inputs below.\<close>

definition frame0 :: frame_rec where
  "frame0 =
     \<lparr>time_idx = 0, channel_idx = 0, slice_idx = 0, pos_idx = 0,
      file_name = ''im_c000_z000_t000_p000.png'', dir_name = ''d'', fg_frac = None,
      zscore_median = None, zscore_iqr = None\<rparr>"

definition sample0 :: "rat \<Rightarrow> rat option \<Rightarrow> ints_rec" where
  "sample0 v fg =
     \<lparr>i_dir_name = ''d'', i_time_idx = 0, i_channel_idx = 0, i_slice_idx = 0, i_pos_idx = 0,
      intensity = v, i_fg_frac = fg\<rparr>"

text \<open>An environment in which every collaborator succeeds, on a dataset of one frame.\<close>

definition env0 :: aux_env where
  "env0 =
     \<lparr>read_meta = (\<lambda>d. Inr ([''dir_name''], [frame0])),
      read_ints_meta = (\<lambda>d n. Inr [sample0 3 (Some 1)]),
      validate_metadata_indices = (\<lambda>fm t c s p u.
         Inr ([(''time_ids'', [0]), (''channel_ids'', [0]), (''slice_ids'', [0]),
               (''pos_ids'', [0])], None)),
      get_sub_meta = (\<lambda>fm t c s p. Inr fm),
      makedirs = (\<lambda>d. Inr ()),
      threshold_otsu = (\<lambda>xs. Inr 0),
      is_identical = False\<rparr>"

text \<open>A tiler of two channels, its collaborators and a file system.\<close>

definition tile_env0 :: tile_env where
  "tile_env0 =
     \<lparr>tile_image_save = (\<lambda>a.
        Inr [\<lparr>time_idx = time_idx a, channel_idx = channel_idx a, slice_idx = slice_idx a,
              pos_idx = pos_idx a,
              file_name = ''im_c'' @ str_int (channel_idx a) @ ''_z'' @ str_int (slice_idx a)
                            @ ''_t'' @ str_int (time_idx a) @ ''_r0_c0'',
              row_start = 0, col_start = 0\<rparr>]),
      tile_file_name = (\<lambda>t c z p ti.
        ''im_c'' @ str_int c @ ''_z'' @ str_int z @ ''_t'' @ str_int t
          @ ''_r'' @ str_int (fst ti) @ ''_c'' @ str_int (fst (snd (snd ti))))\<rparr>"

definition tiler0 :: tiler where
  "tiler0 =
     \<lparr>tile_dir = ''out/tiles'', tile_size = (128, 128), channel_ids = [0, 1],
      channel_depth = [(0, 1), (1, 1)], normalize_channels = [(0, True), (1, True)],
      num_workers = 4, frames_metadata = [],
      nested_id_dict = Some [(0, [(0, [(0, [0, 1, 2])]), (1, [(0, [0, 1])])])],
      time_ids = IdInt (- 1), slice_ids = IdInt (- 1), pos_ids = IdInt (- 1),
      mask_depth = None\<rparr>"

definition fs0 :: fs where
  "fs0 = \<lparr>csv_files = (\<lambda>p. None), tile_files = [], dirs = [''out/tiles'']\<rparr>"

text \<open>
  A tile of the reference channel 0 at time 0 and position 0, a base-class
  constructor that only creates the tile directory, and a file system in
  which the table of tiles already exists.
\<close>

definition ref_tile :: "int \<Rightarrow> int \<Rightarrow> int \<Rightarrow> tile_rec" where
  "ref_tile sl r c =
     \<lparr>time_idx = 0, channel_idx = 0, slice_idx = sl, pos_idx = 0,
      file_name = ''im_c0_z'' @ str_int sl @ ''_t0_r'' @ str_int r @ ''_c'' @ str_int c,
      row_start = r, col_start = c\<rparr>"

definition super_init0 :: "fs \<Rightarrow> (error + tiler) \<times> fs" where
  "super_init0 f = (Inr tiler0, f\<lparr>dirs := ''out/tiles'' # dirs f\<rparr>)"

definition fs1 :: fs where
  "fs1 = \<lparr>csv_files = (\<lambda>p. if p = ''out/tiles/frames_meta.csv'' then Some [] else None),
           tile_files = [], dirs = [''out/tiles'']\<rparr>"

text \<open>The tiler after the reference channel is removed, with depth 3 for channel 1.\<close>

definition tiler_d3 :: tiler where
  "tiler_d3 = tiler0\<lparr>channel_ids := [1], channel_depth := [(0, 1), (1, 3)]\<rparr>"

text \<open>
  A tiler whose only channel, the reference, has depth 3, and a tiler with two
  remaining channels of depths 3 and 5.
\<close>

definition tiler_ref3 :: tiler where
  "tiler_ref3 =
     tiler0\<lparr>channel_ids := [0], channel_depth := [(0, 3)],
            nested_id_dict := Some [(0, [(0, [(0, [0, 1, 2])])])]\<rparr>"

definition tiler_d35 :: tiler where
  "tiler_d35 = tiler0\<lparr>channel_ids := [1, 2], channel_depth := [(0, 1), (1, 3), (2, 5)]\<rparr>"

section \<open>Properties of \<open>compute_zscore_params\<close>\<close>

lemma compute_zscore_params_None:
  "compute_zscore_params fm im d None mf =
     Inr (map (\<lambda>r. r\<lparr>zscore_median := Some 1\<rparr>) fm, None)"
  by (simp add: compute_zscore_params_def o_def)

text \<open>
  C4.  With \<open>normalize_im = None\<close> every record should get
  \<open>zscore_median = 0\<close> and \<open>zscore_iqr = 1\<close>.  The function instead
  assigns the column \<open>zscore_median\<close> twice: on a table of one frame with no
  z-score columns and no intensity samples it returns the frame with
  \<open>zscore_median = 1\<close> and \<open>zscore_iqr\<close> still missing.
\<close>

theorem compute_zscore_params_None_frame0:
  "compute_zscore_params [frame0] [] ''d'' None 0 =
     Inr ([frame0\<lparr>zscore_median := Some 1\<rparr>], None)
   \<and> zscore_median (frame0\<lparr>zscore_median := Some 1\<rparr>) \<noteq> Some 0
   \<and> zscore_iqr (frame0\<lparr>zscore_median := Some 1\<rparr>) = None"
  by (simp add: compute_zscore_params_def frame0_def)

subsection \<open>The left merge\<close>

lemma concat_map_single: "concat (map (\<lambda>x. [f x]) xs) = map f xs"
  by (induction xs) simp_all

lemma filter_fst_distinct:
  "distinct (map fst agg) \<Longrightarrow>
     filter (\<lambda>a. fst a = k) agg = (case map_of agg k of None \<Rightarrow> [] | Some v \<Rightarrow> [(k, v)])"
proof (induction agg)
  case Nil
  then show ?case by simp
next
  case (Cons a agg)
  obtain k' v' where a: "a = (k', v')" by (cases a)
  show ?case
  proof (cases "k' = k")
    case True
    with Cons.prems a have "k \<notin> fst ` set agg" by auto
    then have "filter (\<lambda>a. fst a = k) agg = []" by (auto simp: filter_empty_conv)
    with True a show ?thesis by simp
  next
    case False
    with Cons a show ?thesis by simp
  qed
qed

lemma distinct_ints_agg: "distinct (map fst (ints_agg cols ints))"
  by (simp add: ints_agg_def group_keys_def o_def)

lemma map_of_ints_agg:
  "map_of (ints_agg cols ints) k =
     (if k \<in> ints_key cols ` set ints
      then Some (median (group_values cols ints k),
                 nan_minus (quantile (3 / 4) (group_values cols ints k))
                           (quantile (1 / 4) (group_values cols ints k)))
      else None)"
  by (simp add: ints_agg_def group_keys_def map_of_map_restrict restrict_map_def)

lemma merge_left_distinct:
  assumes "distinct (map fst agg)"
  shows "merge_left cols fm agg = map (merge_row cols agg) fm"
proof -
  have "(case filter (\<lambda>a. fst a = frame_key cols f) agg of
           [] \<Rightarrow> [f\<lparr>zscore_median := None, zscore_iqr := None\<rparr>]
         | ms \<Rightarrow> map (\<lambda>a. f\<lparr>zscore_median := fst (snd a), zscore_iqr := snd (snd a)\<rparr>) ms)
        = [merge_row cols agg f]" for f
    by (simp add: filter_fst_distinct[OF assms] merge_row_def split: option.splits)
  then show ?thesis
    by (simp add: merge_left_def concat_map_single)
qed

lemma compute_zscore_params_merged:
  assumes "normalize_im \<in> {Some ''dataset'', Some ''volume'', Some ''slice''}"
  shows "compute_zscore_params fm im d normalize_im mf =
           (let fm' = map (merge_row (agg_cols_of normalize_im)
                             (ints_agg (agg_cols_of normalize_im) (filter (fg_frac_ge mf) im))) fm
            in Inr (fm', Some (os_path_join d ''frames_meta.csv'', fm')))"
  using assms
  by (auto simp: compute_zscore_params_def Let_def merge_left_distinct[OF distinct_ints_agg])

lemma merge_row_other_columns:
  "merge_row cols agg f = f\<lparr>zscore_median := zscore_median (merge_row cols agg f),
                              zscore_iqr := zscore_iqr (merge_row cols agg f)\<rparr>"
  by (simp add: merge_row_def split: option.splits)

lemma merge_row_unmatched:
  assumes "\<forall>s \<in> set ints. ints_key cols s \<noteq> frame_key cols f"
  shows "merge_row cols (ints_agg cols ints) f = f\<lparr>zscore_median := None, zscore_iqr := None\<rparr>"
proof -
  have "frame_key cols f \<notin> ints_key cols ` set ints"
    using assms by auto
  then show ?thesis by (simp add: merge_row_def map_of_ints_agg)
qed

lemma merge_row_matched:
  assumes "s \<in> set ints" "ints_key cols s = frame_key cols f"
  shows "merge_row cols (ints_agg cols ints) f =
           f\<lparr>zscore_median := median (group_values cols ints (frame_key cols f)),
             zscore_iqr := nan_minus (quantile (3 / 4) (group_values cols ints (frame_key cols f)))
                                     (quantile (1 / 4) (group_values cols ints (frame_key cols f)))\<rparr>"
proof -
  have "frame_key cols f \<in> ints_key cols ` set ints"
    using assms by (metis imageI)
  then show ?thesis
    by (simp add: merge_row_def map_of_ints_agg)
qed

text \<open>
  C7, as the code has it.  For \<open>normalize_im\<close> one of \<open>dataset\<close>,
  \<open>volume\<close>, \<open>slice\<close> the function returns (and writes to
  \<open>frames_meta.csv\<close> in \<open>input_dir\<close>) a table with the rows of
  \<open>frames_meta\<close> in the same order, each row unchanged in every column other
  than \<open>zscore_median\<close> and \<open>zscore_iqr\<close>.  A row whose grouping columns
  match no retained intensity sample gets NaN in both z-score columns, whatever
  it held before; a row that matches a sample gets the median and the
  inter-quartile range of its group.
\<close>

theorem compute_zscore_params_left_merge:
  assumes "normalize_im \<in> {Some ''dataset'', Some ''volume'', Some ''slice''}"
  shows "\<exists>fm'. compute_zscore_params fm im d normalize_im mf =
                 Inr (fm', Some (os_path_join d ''frames_meta.csv'', fm'))
     \<and> length fm' = length fm
     \<and> (\<forall>i < length fm.
           fm' ! i = (fm ! i)\<lparr>zscore_median := zscore_median (fm' ! i),
                                zscore_iqr := zscore_iqr (fm' ! i)\<rparr>
         \<and> ((\<forall>s \<in> set (filter (fg_frac_ge mf) im).
                 ints_key (agg_cols_of normalize_im) s \<noteq> frame_key (agg_cols_of normalize_im) (fm ! i))
              \<longrightarrow> zscore_median (fm' ! i) = None \<and> zscore_iqr (fm' ! i) = None)
         \<and> ((\<exists>s \<in> set (filter (fg_frac_ge mf) im).
                 ints_key (agg_cols_of normalize_im) s = frame_key (agg_cols_of normalize_im) (fm ! i))
              \<longrightarrow> zscore_median (fm' ! i) =
                    median (group_values (agg_cols_of normalize_im) (filter (fg_frac_ge mf) im)
                              (frame_key (agg_cols_of normalize_im) (fm ! i)))))"
proof -
  let ?cols = "agg_cols_of normalize_im"
  let ?ints = "filter (fg_frac_ge mf) im"
  let ?agg = "ints_agg ?cols ?ints"
  let ?fm' = "map (merge_row ?cols ?agg) fm"
  have 1: "compute_zscore_params fm im d normalize_im mf =
             Inr (?fm', Some (os_path_join d ''frames_meta.csv'', ?fm'))"
    using compute_zscore_params_merged[OF assms] by (simp add: Let_def)
  have 2: "?fm' ! i = (fm ! i)\<lparr>zscore_median := zscore_median (?fm' ! i),
                                zscore_iqr := zscore_iqr (?fm' ! i)\<rparr>" if "i < length fm" for i
    using that merge_row_other_columns[of ?cols ?agg "fm ! i"] by simp
  have 3: "zscore_median (?fm' ! i) = None \<and> zscore_iqr (?fm' ! i) = None"
    if "i < length fm"
      and "\<forall>s \<in> set ?ints. ints_key ?cols s \<noteq> frame_key ?cols (fm ! i)" for i
    using that(1) merge_row_unmatched[OF that(2)] by simp
  have 4: "zscore_median (?fm' ! i) = median (group_values ?cols ?ints (frame_key ?cols (fm ! i)))"
    if "i < length fm"
      and "\<exists>s \<in> set ?ints. ints_key ?cols s = frame_key ?cols (fm ! i)" for i
  proof -
    from that(2) obtain s where "s \<in> set ?ints" "ints_key ?cols s = frame_key ?cols (fm ! i)"
      by blast
    from merge_row_matched[OF this] that(1) show ?thesis by simp
  qed
  show ?thesis
    using 1 2 3 4 by (intro exI[of _ ?fm']) simp
qed

theorem compute_zscore_params_left_merge_witness:
  "\<exists>fm'. compute_zscore_params
            [frame0\<lparr>zscore_median := Some 5\<rparr>, frame0\<lparr>channel_idx := 1, zscore_median := Some 5\<rparr>]
            [sample0 3 (Some 1)] ''d'' (Some ''dataset'') 0 = Inr (fm', Some (''d/frames_meta.csv'', fm'))
     \<and> length fm' = 2
     \<and> fm' ! 0 = frame0\<lparr>zscore_median := zscore_median (fm' ! 0), zscore_iqr := zscore_iqr (fm' ! 0)\<rparr>
     \<and> fm' ! 1 = frame0\<lparr>channel_idx := 1\<rparr>"
  using compute_zscore_params_left_merge[of "Some ''dataset''"
      "[frame0\<lparr>zscore_median := Some 5\<rparr>, frame0\<lparr>channel_idx := 1, zscore_median := Some 5\<rparr>]"
      "[sample0 3 (Some 1)]" "''d''" 0]
  by (clarsimp simp: os_path_join_def All_less_Suc fg_frac_ge_def sample0_def frame0_def
        ints_key_def frame_key_def agg_cols_of_def)

text \<open>
  C7 as stated fails: a row that matches no aggregation group does not keep
  its prior z-score values.  Here the only frame is of channel 0 and holds
  \<open>zscore_median = 5\<close>, \<open>zscore_iqr = 2\<close>; the only sample is of channel
  1; the returned row holds NaN in both columns.
\<close>

theorem compute_zscore_params_unmatched_counterexample:
  "compute_zscore_params [frame0\<lparr>zscore_median := Some 5, zscore_iqr := Some 2\<rparr>]
      [(sample0 3 (Some 1))\<lparr>i_channel_idx := 1\<rparr>] ''d'' (Some ''dataset'') 0
    = Inr ([frame0\<lparr>zscore_median := None, zscore_iqr := None\<rparr>],
           Some (''d/frames_meta.csv'', [frame0\<lparr>zscore_median := None, zscore_iqr := None\<rparr>]))
   \<and> zscore_median (frame0\<lparr>zscore_median := None, zscore_iqr := None\<rparr>)
       \<noteq> zscore_median (frame0\<lparr>zscore_median := Some 5, zscore_iqr := Some 2\<rparr>)
   \<and> zscore_iqr (frame0\<lparr>zscore_median := None, zscore_iqr := None\<rparr>)
       \<noteq> zscore_iqr (frame0\<lparr>zscore_median := Some 5, zscore_iqr := Some 2\<rparr>)"
  by (simp add: compute_zscore_params_def frame0_def sample0_def merge_left_def ints_agg_def
      group_keys_def os_path_join_def Let_def agg_cols_of_def fg_frac_ge_def frame_key_def
      ints_key_def)

subsection \<open>Samples without a foreground fraction\<close>

lemma fg_filter_nan:
  "filter (fg_frac_ge mf) (filter (\<lambda>r. i_fg_frac r \<noteq> None) im) = filter (fg_frac_ge mf) im"
  by (induction im) (auto simp: fg_frac_ge_def)

lemma fg_filter_all_nan:
  "\<forall>r \<in> set im. i_fg_frac r = None \<Longrightarrow> filter (fg_frac_ge mf) im = []"
  by (induction im) (auto simp: fg_frac_ge_def)

text \<open>
  C9.  For every \<open>min_fraction\<close> (so also for 0) the result of
  \<open>compute_zscore_params\<close> is the one it gives after all samples with a NaN
  \<open>fg_frac\<close> have been deleted from \<open>ints_meta\<close>: such samples take no part
  in the aggregation.  If no sample has a foreground fraction and
  \<open>normalize_im\<close> is \<open>dataset\<close>, \<open>volume\<close> or \<open>slice\<close>, no statistics
  are computed at all: every returned row has NaN in both z-score columns.
\<close>

theorem compute_zscore_params_nan_fg_frac:
  "compute_zscore_params fm im d normalize_im mf =
     compute_zscore_params fm (filter (\<lambda>r. i_fg_frac r \<noteq> None) im) d normalize_im mf
   \<and> ((\<forall>r \<in> set im. i_fg_frac r = None) \<longrightarrow>
        normalize_im \<in> {Some ''dataset'', Some ''volume'', Some ''slice''} \<longrightarrow>
        compute_zscore_params fm im d normalize_im mf =
          Inr (map (\<lambda>f. f\<lparr>zscore_median := None, zscore_iqr := None\<rparr>) fm,
               Some (os_path_join d ''frames_meta.csv'',
                     map (\<lambda>f. f\<lparr>zscore_median := None, zscore_iqr := None\<rparr>) fm)))"
proof (intro conjI impI)
  show "compute_zscore_params fm im d normalize_im mf =
     compute_zscore_params fm (filter (\<lambda>r. i_fg_frac r \<noteq> None) im) d normalize_im mf"
    by (simp only: compute_zscore_params_def fg_filter_nan)
next
  assume a: "\<forall>r \<in> set im. i_fg_frac r = None"
    and n: "normalize_im \<in> {Some ''dataset'', Some ''volume'', Some ''slice''}"
  have "merge_row cols (ints_agg cols []) = (\<lambda>f. f\<lparr>zscore_median := None, zscore_iqr := None\<rparr>)"
    for cols
    by (rule ext) (simp add: merge_row_unmatched)
  then show "compute_zscore_params fm im d normalize_im mf =
          Inr (map (\<lambda>f. f\<lparr>zscore_median := None, zscore_iqr := None\<rparr>) fm,
               Some (os_path_join d ''frames_meta.csv'',
                     map (\<lambda>f. f\<lparr>zscore_median := None, zscore_iqr := None\<rparr>) fm))"
    using compute_zscore_params_merged[OF n] by (simp add: fg_filter_all_nan[OF a] Let_def)
qed

theorem compute_zscore_params_nan_fg_frac_witness:
  "compute_zscore_params [frame0\<lparr>zscore_median := Some 5\<rparr>] [sample0 3 None, sample0 4 None]
       ''d'' (Some ''slice'') 0 =
     Inr ([frame0], Some (''d/frames_meta.csv'', [frame0]))"
  using compute_zscore_params_nan_fg_frac[of "[frame0\<lparr>zscore_median := Some 5\<rparr>]"
      "[sample0 3 None, sample0 4 None]" "''d''" "Some ''slice''" 0, THEN conjunct2]
  by (simp add: os_path_join_def sample0_def frame0_def)

section \<open>Properties of \<open>MaskProcessor.__init__\<close>\<close>

text \<open>
  C8, as the code has it.  Once the metadata has been read and validated and
  the mask directory created, the constructor raises \<open>AssertionError\<close> for
  every \<open>mask_type\<close> other than \<open>'otsu'\<close>, \<open>'unimodal'\<close>,
  \<open>'dataset otsu'\<close> (written with a space) and
  \<open>'borders_weight_loss_map'\<close>; it returns an object for \<open>'otsu'\<close>,
  \<open>'unimodal'\<close> and \<open>'borders_weight_loss_map'\<close>, and for
  \<open>'dataset otsu'\<close> when the intensity samples can be read and thresholded;
  and it returns an object only for one of these four strings.
\<close>

theorem MaskProcessor_init_mask_type:
  assumes "MaskProcessor_read env i_dir o_dir ch_ids t_ids s_ids p_ids us mt mc = Inr st"
  shows "(mt \<notin> set [''otsu'', ''unimodal'', ''dataset otsu'', ''borders_weight_loss_map''] \<longrightarrow>
            MaskProcessor_init env i_dir o_dir ch_ids ff t_ids s_ids p_ids i2s us nw mt mc ext
              = Inl AssertionError)
       \<and> (mt \<in> set [''otsu'', ''unimodal'', ''borders_weight_loss_map''] \<longrightarrow>
            (\<exists>mp. MaskProcessor_init env i_dir o_dir ch_ids ff t_ids s_ids p_ids i2s us nw mt mc ext
                    = Inr mp \<and> mask_type mp = mt))
       \<and> (mt = ''dataset otsu'' \<longrightarrow>
            (\<forall>ints thr. read_ints_meta env i_dir ''intensity_meta.csv'' = Inr ints \<longrightarrow>
               get_channel_thr_df env ints (fst (snd (snd (snd st)))) = Inr thr \<longrightarrow>
               (\<exists>mp. MaskProcessor_init env i_dir o_dir ch_ids ff t_ids s_ids p_ids i2s us nw mt mc ext
                    = Inr mp \<and> mask_type mp = mt)))
       \<and> ((\<exists>mp. MaskProcessor_init env i_dir o_dir ch_ids ff t_ids s_ids p_ids i2s us nw mt mc ext
                    = Inr mp) \<longrightarrow>
            mt \<in> set [''otsu'', ''unimodal'', ''dataset otsu'', ''borders_weight_loss_map''])"
proof -
  obtain fm mch sub chs mdir tree where st: "st = (fm, mch, sub, chs, mdir, tree)"
    by (cases st) auto
  show ?thesis
    using assms unfolding st
    by (auto simp: MaskProcessor_init_def Let_def)
qed

lemma MaskProcessor_read_env0:
  "MaskProcessor_read env0 ''in'' ''out'' (IdList [0]) (IdInt (- 1)) (IdInt (- 1)) (IdInt (- 1))
      True mt None =
   Inr ([frame0], 1, [frame0], [0], ''out/mask_channels_0'', None)"
  by (simp add: MaskProcessor_read_def env0_def mask_channel_of_def dict_get_def Let_def
      os_path_join_def str_int_def frame0_def)

theorem MaskProcessor_init_mask_type_witness:
  "(\<exists>mp. MaskProcessor_init env0 ''in'' ''out'' (IdList [0]) None (IdInt (- 1)) (IdInt (- 1))
            (IdInt (- 1)) 3 True 4 ''unimodal'' None ''.npy'' = Inr mp \<and> mask_type mp = ''unimodal'')
   \<and> MaskProcessor_init env0 ''in'' ''out'' (IdList [0]) None (IdInt (- 1)) (IdInt (- 1))
            (IdInt (- 1)) 3 True 4 ''Otsu'' None ''.npy'' = Inl AssertionError"
  using MaskProcessor_init_mask_type[OF MaskProcessor_read_env0, of "''unimodal''" None 3 4 "''.npy''"]
    MaskProcessor_init_mask_type[OF MaskProcessor_read_env0, of "''Otsu''" None 3 4 "''.npy''"]
  by simp

text \<open>
  C8 as stated fails: the name \<open>dataset_otsu\<close> (with an underscore) is
  rejected, in an environment where every other step of the constructor
  succeeds.
\<close>

theorem MaskProcessor_init_dataset_otsu_counterexample:
  "MaskProcessor_init env0 ''in'' ''out'' (IdList [0]) None (IdInt (- 1)) (IdInt (- 1))
       (IdInt (- 1)) 3 True 4 ''dataset_otsu'' None ''.npy'' = Inl AssertionError"
  by (simp add: MaskProcessor_init_def MaskProcessor_read_env0)

lemma MaskProcessor_init_dataset_otsu_space:
  "\<exists>mp. MaskProcessor_init env0 ''in'' ''out'' (IdList [0]) None (IdInt (- 1)) (IdInt (- 1))
       (IdInt (- 1)) 3 True 4 ''dataset otsu'' None ''.npy'' = Inr mp
     \<and> mask_type mp = ''dataset otsu'' \<and> channel_thr_df mp = Some [(''d'', 0, 0)]"
proof -
  have 1: "read_ints_meta env0 ''in'' ''intensity_meta.csv'' = Inr [sample0 3 (Some 1)]"
    by (simp add: env0_def)
  have 2: "get_channel_thr_df env0 [sample0 3 (Some 1)] [0] = Inr [(''d'', 0, 0)]"
    by (simp add: get_channel_thr_df_def env0_def sample0_def)
  show ?thesis
    by (simp add: MaskProcessor_init_def MaskProcessor_read_env0 1 2)
qed

section \<open>Properties of the non-uniform tiler\<close>

subsection \<open>The split of the index dictionary in \<open>tile_stack\<close>\<close>

text \<open>
  C3.  \<open>ch0_ids\<close> should be the index dictionary restricted to the reference
  channel.  In the first dictionary below the time point 1 has no entry for the
  reference channel 0: \<open>tile_stack\<close> stores under time point 1 the entry of
  time point 0, which the local variable \<open>ch0_dict\<close> still holds.  In the
  second dictionary the first time point has no entry for channel 0, and
  reading the unassigned variable raises \<open>UnboundLocalError\<close>.
\<close>

theorem tile_stack_ids_stale_reference:
  "tile_stack_ids [(0, [(0, [(0, [0])]), (1, [(0, [0])])]), (1, [(1, [(0, [5])])])] 0 =
     Inr ([(0, [(0, [(0, [0])])]), (1, [(0, [(0, [0])])])],
          [(0, [(1, [(0, [0])])]), (1, [(1, [(0, [5])])])])
   \<and> tile_stack_ids [(0, [(1, [(0, [5])])]), (1, [(0, [(0, [0])]), (1, [(0, [0])])])] 0 =
     Inl UnboundLocalError"
  by (simp add: tile_stack_ids_def dict_get_def dict_del_def)

text \<open>
  On the first of these dictionaries the loop of \<open>tile_mask_stack\<close>, which
  stores the entry inside the test, gives the restriction.
\<close>

lemma mask_ch_ids_of_example:
  "mask_ch_ids_of [(0, [(0, [(0, [0])]), (1, [(0, [0])])]), (1, [(1, [(0, [5])])])] 0 =
     [(0, [(0, [(0, [0])])])]"
  by (simp add: mask_ch_ids_of_def)

text \<open>
  Where every time point has an entry for the reference channel (and no key
  occurs twice in a dictionary) \<open>tile_stack\<close> does build the restriction
  to the reference channel and the dictionary without it.
\<close>

lemma tile_stack_channels_absent:
  "ch \<notin> fst ` set items \<Longrightarrow> tile_stack_channels ch tp items st = Inr st"
  by (induction ch tp items st rule: tile_stack_channels.induct) auto

lemma tile_stack_channels_present:
  assumes "distinct (map fst items)" "map_of items ch = Some v"
    "dict_get copy tp = Inr cur" "ch \<in> fst ` set cur"
  shows "tile_stack_channels ch tp items (c0, copy) =
           Inr (Some [(ch, v)], dict_set tp (filter (\<lambda>kv. fst kv \<noteq> ch) cur) copy)"
  using assms
proof (induction items arbitrary: c0)
  case Nil
  then show ?case by simp
next
  case (Cons kv items)
  obtain k w where kv: "kv = (k, w)" by (cases kv)
  show ?case
  proof (cases "k = ch")
    case True
    with Cons.prems kv have v: "w = v" and absent: "ch \<notin> fst ` set items" by auto
    from Cons.prems(4) have del: "dict_del ch cur = Inr (filter (\<lambda>kv. fst kv \<noteq> ch) cur)"
      by (simp add: dict_del_def)
    show ?thesis
      using True kv v Cons.prems(3) del tile_stack_channels_absent[OF absent]
      by simp
  next
    case False
    with Cons kv show ?thesis by simp
  qed
qed

lemma dict_get_append:
  "tp \<notin> fst ` set pre \<Longrightarrow> dict_get (pre @ (tp, d) # rest) tp = Inr d"
  by (induction pre) (auto simp: dict_get_def)

lemma dict_set_append:
  "tp \<notin> fst ` set pre \<Longrightarrow> dict_set tp x (pre @ (tp, d) # rest) = pre @ (tp, x) # rest"
  by (induction pre) auto

lemma dict_set_new: "tp \<notin> fst ` set acc \<Longrightarrow> dict_set tp x acc = acc @ [(tp, x)]"
  by (induction acc) auto

lemma filter_key_single:
  "distinct (map fst d) \<Longrightarrow> map_of d ch = Some v \<Longrightarrow> filter (\<lambda>kv. fst kv = ch) d = [(ch, v)]"
proof (induction d)
  case Nil
  then show ?case by simp
next
  case (Cons a d)
  obtain k w where a: "a = (k, w)" by (cases a)
  show ?case
  proof (cases "k = ch")
    case True
    with Cons.prems a have "ch \<notin> fst ` set d" "w = v" by auto
    then have "filter (\<lambda>kv. fst kv = ch) d = []" by (auto simp: filter_empty_conv)
    with True a \<open>w = v\<close> show ?thesis by simp
  next
    case False
    with Cons a show ?thesis by simp
  qed
qed

lemma tile_stack_times_all_present:
  assumes "distinct (map fst (pre @ rest))"
    and "fst ` set acc \<inter> fst ` set rest = {}"
    and "\<forall>(tp, d) \<in> set rest. distinct (map fst d) \<and> ch \<in> fst ` set d"
  shows "tile_stack_times ch rest (c0, pre @ rest, acc) =
           Inr (acc @ map (\<lambda>(tp, d). (tp, filter (\<lambda>kv. fst kv = ch) d)) rest,
                pre @ map (\<lambda>(tp, d). (tp, filter (\<lambda>kv. fst kv \<noteq> ch) d)) rest)"
  using assms
proof (induction rest arbitrary: pre acc c0)
  case Nil
  then show ?case by simp
next
  case (Cons a rest)
  obtain tp d where a: "a = (tp, d)" by (cases a)
  from Cons.prems(1) a have tp_pre: "tp \<notin> fst ` set pre" and tp_rest: "tp \<notin> fst ` set rest"
    by auto
  from Cons.prems(2) a have tp_acc: "tp \<notin> fst ` set acc" by auto
  from Cons.prems(3) a have dd: "distinct (map fst d)" and chd: "ch \<in> fst ` set d" by auto
  from chd obtain v where v: "map_of d ch = Some v"
    by (metis domD dom_map_of_conv_image_fst)
  have get: "dict_get (pre @ (tp, d) # rest) tp = Inr d"
    by (rule dict_get_append[OF tp_pre])
  have inner: "tile_stack_channels ch tp d (c0, pre @ (tp, d) # rest) =
      Inr (Some [(ch, v)], pre @ (tp, filter (\<lambda>kv. fst kv \<noteq> ch) d) # rest)"
    using tile_stack_channels_present[OF dd v get chd, of c0]
    by (simp add: dict_set_append[OF tp_pre])
  let ?pre = "pre @ [(tp, filter (\<lambda>kv. fst kv \<noteq> ch) d)]"
  let ?acc = "acc @ [(tp, [(ch, v)])]"
  have 1: "distinct (map fst (?pre @ rest))" using Cons.prems(1) a by auto
  have 2: "fst ` set ?acc \<inter> fst ` set rest = {}" using Cons.prems(2) a tp_rest by auto
  have 3: "\<forall>(tp, d) \<in> set rest. distinct (map fst d) \<and> ch \<in> fst ` set d"
    using Cons.prems(3) by auto
  from Cons.IH[OF 1 2 3, of "Some [(ch, v)]"]
  show ?case
    by (simp add: a inner dict_set_new[OF tp_acc] filter_key_single[OF dd v])
qed

lemma tile_stack_ids_all_present:
  assumes "distinct (map fst tree)"
    and "\<forall>(tp, d) \<in> set tree. distinct (map fst d) \<and> ch \<in> fst ` set d"
  shows "tile_stack_ids tree ch =
           Inr (map (\<lambda>(tp, d). (tp, filter (\<lambda>kv. fst kv = ch) d)) tree,
                map (\<lambda>(tp, d). (tp, filter (\<lambda>kv. fst kv \<noteq> ch) d)) tree)"
  using tile_stack_times_all_present[of "[]" tree "[]" ch None] assms
  by (simp add: tile_stack_ids_def)

subsection \<open>The constructor\<close>

text \<open>
  C5.  If, when the base-class constructor has returned, \<open>frames_meta.csv\<close>
  exists in the tile directory, the constructor raises: an
  \<open>AssertionError\<close> when the validation of the indices succeeds, the
  exception of the validation otherwise.  No object is returned, so none of
  the tiling methods can run, and the file system is left as the base-class
  constructor left it.
\<close>

theorem ImageTilerNonUniform_init_existing_meta:
  assumes "super_init f = (Inr self, f1)"
    and "os_path_exists f1 (os_path_join (tile_dir self) ''frames_meta.csv'')"
  shows "(\<exists>e. ImageTilerNonUniform_init aux super_init t c s p f = (Inl e, f1))
       \<and> (\<forall>ids tree. validate_metadata_indices aux (frames_metadata self) t c s p False
                         = Inr (ids, tree) \<longrightarrow>
            ImageTilerNonUniform_init aux super_init t c s p f = (Inl AssertionError, f1))"
  using assms
  by (auto simp: ImageTilerNonUniform_init_def Let_def split: sum.splits prod.splits)

theorem ImageTilerNonUniform_init_existing_meta_witness:
  "ImageTilerNonUniform_init env0 super_init0 (IdInt (- 1)) (IdInt (- 1)) (IdInt (- 1)) (IdInt (- 1)) fs1
     = (Inl AssertionError, fs1\<lparr>dirs := ''out/tiles'' # dirs fs1\<rparr>)
   \<and> csv_files (fs1\<lparr>dirs := ''out/tiles'' # dirs fs1\<rparr>) = csv_files fs1
   \<and> tile_files (fs1\<lparr>dirs := ''out/tiles'' # dirs fs1\<rparr>) = tile_files fs1"
proof -
  have 1: "super_init0 fs1 = (Inr tiler0, fs1\<lparr>dirs := ''out/tiles'' # dirs fs1\<rparr>)"
    by (simp add: super_init0_def)
  have 2: "os_path_exists (fs1\<lparr>dirs := ''out/tiles'' # dirs fs1\<rparr>)
             (os_path_join (tile_dir tiler0) ''frames_meta.csv'')"
    by (simp add: os_path_exists_def os_path_join_def tiler0_def fs1_def)
  have 3: "validate_metadata_indices env0 (frames_metadata tiler0) (IdInt (- 1)) (IdInt (- 1))
             (IdInt (- 1)) (IdInt (- 1)) False =
           Inr ([(''time_ids'', [0]), (''channel_ids'', [0]), (''slice_ids'', [0]),
                 (''pos_ids'', [0])], None)"
    by (simp add: env0_def)
  from ImageTilerNonUniform_init_existing_meta[where super_init = super_init0 and f = fs1
      and aux = env0 and t = "IdInt (- 1)" and c = "IdInt (- 1)" and s = "IdInt (- 1)"
      and p = "IdInt (- 1)", OF 1 2] 3
  show ?thesis by simp
qed

subsection \<open>The channel list after \<open>tile_stack\<close>\<close>

text \<open>
  C10.  After a completed run of \<open>tile_stack\<close> the object's
  \<open>channel_ids\<close> is the former list without its first element, the
  reference channel.  Channel lists hold each channel once; then the reference
  channel is no longer in the list, a next call takes another channel as
  reference, and on an empty list it raises \<open>IndexError\<close>.
\<close>

theorem tile_stack_pops_reference:
  assumes "tile_stack env self f = (self', Inr f')"
  shows "channel_ids self \<noteq> []
       \<and> channel_ids self' = tl (channel_ids self)
       \<and> (distinct (channel_ids self) \<longrightarrow>
            hd (channel_ids self) \<notin> set (channel_ids self')
          \<and> (channel_ids self' \<noteq> [] \<longrightarrow> hd (channel_ids self') \<noteq> hd (channel_ids self)))
       \<and> (channel_ids self' = [] \<longrightarrow> tile_stack env self' f2 = (self', Inl IndexError))"
proof -
  from assms obtain c cs where cs: "channel_ids self = c # cs"
    by (cases "channel_ids self") (auto simp: tile_stack_def)
  from assms cs have s': "self' = self\<lparr>channel_ids := cs\<rparr>"
    by (auto simp: tile_stack_def Let_def split: sum.splits option.splits prod.splits if_splits)
  have "tile_stack env self' f2 = (self', Inl IndexError)" if "channel_ids self' = []"
    using that by (simp add: tile_stack_def)
  with cs s' show ?thesis
    by (cases cs) auto
qed

lemma tile_stack_example:
  "\<exists>f'. tile_stack tile_env0 tiler0 fs0 = (tiler0\<lparr>channel_ids := [1]\<rparr>, Inr f')"
proof -
  have 1: "tile_stack_ids [(0, [(0, [(0, [0, 1, 2])]), (1, [(0, [0, 1])])])] 0 =
     Inr ([(0, [(0, [(0, [0, 1, 2])])])], [(0, [(1, [(0, [0, 1])])])])"
    by (simp add: tile_stack_ids_def dict_get_def dict_del_def)
  have 2: "\<exists>df f1. tile_first_channel tile_env0 tiler0 [(0, [(0, [(0, [0, 1, 2])])])] 1 None False fs0
              = Inr (df, f1) \<and> df = [ref_tile 0 0 0, ref_tile 1 0 0, ref_tile 2 0 0]"
    by (simp add: tile_first_channel_def tile_first_channel_fn_args_def concat_map_err_def
        tiler0_def adjust_slice_margins_def mp_tile_save_def tile_env0_def
        get_crop_tile_args_def pd_concat_def str_int_def Let_def ref_tile_def)
  then obtain f1 where 3: "tile_first_channel tile_env0 tiler0 [(0, [(0, [(0, [0, 1, 2])])])] 1
      None False fs0 = Inr ([ref_tile 0 0 0, ref_tile 1 0 0, ref_tile 2 0 0], f1)"
    by blast
  have 4: "\<exists>recs. tile_remaining_channels_records tile_env0 (tiler0\<lparr>channel_ids := [1]\<rparr>)
      [(0, [(1, [(0, [0, 1])])])] 0 [ref_tile 0 0 0, ref_tile 1 0 0, ref_tile 2 0 0] = Inr recs"
    by (simp add: tile_remaining_channels_records_def tile_remaining_channels_fn_args_def
      concat_map_err_def dict_get_def tiler0_def adjust_slice_margins_def get_tile_indices_def
      np_any_def ref_tile_def get_crop_tile_args_def mp_crop_save_def crop_at_indices_save_def
      pd_concat_def tile_env0_def str_int_def Let_def)
  have 5: "channel_ids tiler0 = [0, 1]" "dict_get (channel_depth tiler0) 0 = Inr 1"
    "nested_id_dict tiler0 = Some [(0, [(0, [(0, [0, 1, 2])]), (1, [(0, [0, 1])])])]"
    by (simp_all add: tiler0_def dict_get_def)
  from 4 show ?thesis
    by (auto simp: tile_stack_def 1 3 5 tile_remaining_channels_def Let_def)
qed


theorem tile_stack_pops_reference_witness:
  "channel_ids tiler0 = [0, 1]
   \<and> channel_ids (fst (tile_stack tile_env0 tiler0 fs0)) = [1]
   \<and> 0 \<notin> set (channel_ids (fst (tile_stack tile_env0 tiler0 fs0)))"
proof -
  from tile_stack_example obtain f'
    where 1: "tile_stack tile_env0 tiler0 fs0 = (tiler0\<lparr>channel_ids := [1]\<rparr>, Inr f')"
    by blast
  have 2: "channel_ids tiler0 = [0, 1]"
    by (simp add: tiler0_def)
  from tile_stack_pops_reference[OF 1] show ?thesis
    unfolding 1 2 by simp
qed

text \<open>The list is shortened also when the propagation phase raises.\<close>

lemma tile_stack_pops_even_when_remaining_fails:
  assumes "channel_ids self = c # cs"
    and "dict_get (channel_depth self) c = Inr d"
    and "nested_id_dict self = Some tree"
    and "tile_stack_ids tree c = Inr (ch0, rest)"
    and "tile_first_channel env self ch0 d None False f = Inr (df, f1)"
  shows "fst (tile_stack env self f) = self\<lparr>channel_ids := cs\<rparr>"
  using assms by (simp add: tile_stack_def Let_def)


subsection \<open>The jobs and records of \<open>tile_remaining_channels\<close>\<close>

lemma map_err_Inr_iff:
  "map_err f xs = Inr ys \<longleftrightarrow> list_all2 (\<lambda>x y. f x = Inr y) xs ys"
proof (induction xs arbitrary: ys)
  case Nil
  then show ?case by auto
next
  case (Cons x xs)
  show ?case
    by (cases "f x"; cases "map_err f xs")
       (auto simp: list_all2_Cons1 Cons.IH[symmetric])
qed

lemma concat_map_err_mem:
  assumes "concat_map_err f xs = Inr zs"
  shows "z \<in> set zs \<longleftrightarrow> (\<exists>x \<in> set xs. \<exists>y. f x = Inr y \<and> z \<in> set y)"
proof -
  from assms obtain ys where ys: "map_err f xs = Inr ys" and zs: "zs = concat ys"
    by (auto simp: concat_map_err_def split: sum.splits)
  from ys have l: "list_all2 (\<lambda>x y. f x = Inr y) xs ys"
    by (simp add: map_err_Inr_iff)
  show ?thesis
  proof
    assume "z \<in> set zs"
    then obtain y where y: "y \<in> set ys" "z \<in> set y" using zs by auto
    then obtain i where i: "i < length ys" "ys ! i = y" by (auto simp: in_set_conv_nth)
    with l have "f (xs ! i) = Inr y" "xs ! i \<in> set xs"
      by (auto simp: list_all2_conv_all_nth)
    with y show "\<exists>x \<in> set xs. \<exists>y. f x = Inr y \<and> z \<in> set y" by blast
  next
    assume "\<exists>x \<in> set xs. \<exists>y. f x = Inr y \<and> z \<in> set y"
    then obtain x y where x: "x \<in> set xs" "f x = Inr y" "z \<in> set y" by blast
    then obtain i where i: "i < length xs" "xs ! i = x" by (auto simp: in_set_conv_nth)
    with l x have "ys ! i = y" "i < length ys"
      by (auto simp: list_all2_conv_all_nth)
    then have "y \<in> set ys" by (auto simp: in_set_conv_nth)
    with x zs show "z \<in> set zs" by auto
  qed
qed

lemma concat_map_err_Inr_sub:
  assumes "concat_map_err f xs = Inr zs" "x \<in> set xs"
  shows "\<exists>y. f x = Inr y"
proof -
  from assms obtain ys where ys: "map_err f xs = Inr ys"
    by (auto simp: concat_map_err_def split: sum.splits)
  then have l: "list_all2 (\<lambda>x y. f x = Inr y) xs ys"
    by (simp add: map_err_Inr_iff)
  from assms(2) obtain i where "i < length xs" "xs ! i = x" by (auto simp: in_set_conv_nth)
  with l show ?thesis by (auto simp: list_all2_conv_all_nth)
qed

lemma slice_level_mem:
  assumes "concat_map_err (\<lambda>sl_idx.
                  (let cur_tile_indices =
                         get_tile_indices self cur tp tiled pos sl_idx
                   in if ch \<notin> set (channel_ids self) then Inl ValueError
                      else if np_any cur_tile_indices
                        then Inr [get_crop_tile_args ch tp sl_idx pos ''crop'' None
                                    (Some cur_tile_indices)]
                      else Inr [])) sls = Inr zs"
    and "a \<in> set zs"
  shows "\<exists>sl_idx \<in> set sls. ch \<in> set (channel_ids self)
             \<and> np_any (get_tile_indices self cur tp tiled pos sl_idx)
             \<and> a = crop_job_of self cur tiled tp ch pos sl_idx"
  using assms(2) unfolding concat_map_err_mem[OF assms(1)] crop_job_of_def
  by (auto simp: Let_def split: if_splits)

lemma pos_level_mem:
  assumes "concat_map_err (\<lambda>(pos_idx', sl_idx_list).
           (case dict_get (channel_depth self) ch of
              Inl e \<Rightarrow> Inl e
            | Inr depth \<Rightarrow>
                concat_map_err (\<lambda>sl_idx.
                  (let cur_tile_indices =
                         get_tile_indices self cur tp tiled pos_idx' sl_idx
                   in if ch \<notin> set (channel_ids self) then Inl ValueError
                      else if np_any cur_tile_indices
                        then Inr [get_crop_tile_args ch tp sl_idx pos_idx' ''crop'' None
                                    (Some cur_tile_indices)]
                      else Inr []))
                  (adjust_slice_margins sl_idx_list depth))) chd = Inr zs"
    and "a \<in> set zs"
  shows "\<exists>pos sl_list depth sl_idx. (pos, sl_list) \<in> set chd
             \<and> dict_get (channel_depth self) ch = Inr depth
             \<and> sl_idx \<in> set (adjust_slice_margins sl_list depth)
             \<and> ch \<in> set (channel_ids self)
             \<and> np_any (get_tile_indices self cur tp tiled pos sl_idx)
             \<and> a = crop_job_of self cur tiled tp ch pos sl_idx"
proof -
  from assms(2) concat_map_err_mem[OF assms(1)]
  obtain pos sl_list y where x: "(pos, sl_list) \<in> set chd"
    and y: "(case dict_get (channel_depth self) ch of
              Inl e \<Rightarrow> Inl e
            | Inr depth \<Rightarrow>
                concat_map_err (\<lambda>sl_idx.
                  (let cur_tile_indices =
                         get_tile_indices self cur tp tiled pos sl_idx
                   in if ch \<notin> set (channel_ids self) then Inl ValueError
                      else if np_any cur_tile_indices
                        then Inr [get_crop_tile_args ch tp sl_idx pos ''crop'' None
                                    (Some cur_tile_indices)]
                      else Inr []))
                  (adjust_slice_margins sl_list depth)) = Inr y"
    and a: "a \<in> set y"
    by auto
  from y obtain depth where d: "dict_get (channel_depth self) ch = Inr depth"
    by (cases "dict_get (channel_depth self) ch") auto
  from slice_level_mem[OF y[unfolded d sum.case] a] x d show ?thesis
    by blast
qed

lemma fn_args_mem:
  assumes "tile_remaining_channels_fn_args self nested tiled cur = Inr fn_args"
    and "a \<in> set fn_args"
  shows "\<exists>tp tp_dict ch chd pos sl_list depth sl_idx.
             (tp, tp_dict) \<in> set nested \<and> (ch, chd) \<in> set tp_dict \<and> (pos, sl_list) \<in> set chd
             \<and> dict_get (channel_depth self) ch = Inr depth
             \<and> sl_idx \<in> set (adjust_slice_margins sl_list depth)
             \<and> ch \<in> set (channel_ids self)
             \<and> np_any (get_tile_indices self cur tp tiled pos sl_idx)
             \<and> a = crop_job_of self cur tiled tp ch pos sl_idx"
proof -
  from assms(2) concat_map_err_mem[OF assms(1)[unfolded tile_remaining_channels_fn_args_def]]
  obtain tp tp_dict y where 1: "(tp, tp_dict) \<in> set nested" and a1: "a \<in> set y"
    and y1: "concat_map_err (\<lambda>(ch_idx, ch_dict).
         concat_map_err (\<lambda>(pos_idx', sl_idx_list).
           (case dict_get (channel_depth self) ch_idx of
              Inl e \<Rightarrow> Inl e
            | Inr depth \<Rightarrow>
                concat_map_err (\<lambda>sl_idx.
                  (let cur_tile_indices =
                         get_tile_indices self cur tp tiled pos_idx' sl_idx
                   in if ch_idx \<notin> set (channel_ids self) then Inl ValueError
                      else if np_any cur_tile_indices
                        then Inr [get_crop_tile_args ch_idx tp sl_idx pos_idx' ''crop'' None
                                    (Some cur_tile_indices)]
                      else Inr []))
                  (adjust_slice_margins sl_idx_list depth)))
           ch_dict) tp_dict = Inr y"
    by auto
  from a1 concat_map_err_mem[OF y1]
  obtain ch chd z where 2: "(ch, chd) \<in> set tp_dict" and a2: "a \<in> set z"
    and y2: "concat_map_err (\<lambda>(pos_idx', sl_idx_list).
           (case dict_get (channel_depth self) ch of
              Inl e \<Rightarrow> Inl e
            | Inr depth \<Rightarrow>
                concat_map_err (\<lambda>sl_idx.
                  (let cur_tile_indices =
                         get_tile_indices self cur tp tiled pos_idx' sl_idx
                   in if ch \<notin> set (channel_ids self) then Inl ValueError
                      else if np_any cur_tile_indices
                        then Inr [get_crop_tile_args ch tp sl_idx pos_idx' ''crop'' None
                                    (Some cur_tile_indices)]
                      else Inr []))
                  (adjust_slice_margins sl_idx_list depth)))
           chd = Inr z"
    by auto
  from pos_level_mem[OF y2 a2] 1 2 show ?thesis by blast
qed


lemma fn_args_complete:
  assumes "tile_remaining_channels_fn_args self nested tiled cur = Inr fn_args"
    and "(tp, tp_dict) \<in> set nested" "(ch, chd) \<in> set tp_dict" "(pos, sl_list) \<in> set chd"
    and "dict_get (channel_depth self) ch = Inr depth"
    and "sl_idx \<in> set (adjust_slice_margins sl_list depth)"
    and "np_any (get_tile_indices self cur tp tiled pos sl_idx)"
  shows "crop_job_of self cur tiled tp ch pos sl_idx \<in> set fn_args"
proof -
  let ?F3 = "\<lambda>tp ch pos. (\<lambda>sl_idx.
                  (let cur_tile_indices =
                         get_tile_indices self cur tp tiled pos sl_idx
                   in if ch \<notin> set (channel_ids self) then Inl ValueError
                      else if np_any cur_tile_indices
                        then Inr [get_crop_tile_args ch tp sl_idx pos ''crop'' None
                                    (Some cur_tile_indices)]
                      else Inr []))"
  let ?F2 = "\<lambda>tp ch. (\<lambda>(pos_idx', sl_idx_list).
           (case dict_get (channel_depth self) ch of
              Inl e \<Rightarrow> Inl e
            | Inr depth \<Rightarrow>
                concat_map_err (?F3 tp ch pos_idx') (adjust_slice_margins sl_idx_list depth)))"
  let ?F1 = "\<lambda>tp. (\<lambda>(ch_idx, ch_dict). concat_map_err (?F2 tp ch_idx) ch_dict)"
  let ?F0 = "\<lambda>(tp_idx, tp_dict). concat_map_err (?F1 tp_idx) tp_dict"
  have 0: "concat_map_err ?F0 nested = Inr fn_args"
    using assms(1) by (simp add: tile_remaining_channels_fn_args_def)
  from concat_map_err_Inr_sub[OF 0 assms(2)] obtain y1
    where y1: "concat_map_err (?F1 tp) tp_dict = Inr y1" by auto
  from concat_map_err_Inr_sub[OF y1 assms(3)] obtain y2
    where y2: "concat_map_err (?F2 tp ch) chd = Inr y2" by auto
  from concat_map_err_Inr_sub[OF y2 assms(4)] assms(5) obtain y3
    where y3: "concat_map_err (?F3 tp ch pos) (adjust_slice_margins sl_list depth) = Inr y3"
    by auto
  from concat_map_err_Inr_sub[OF y3 assms(6)] obtain y4
    where y4: "?F3 tp ch pos sl_idx = Inr y4" by auto
  with assms(7) have "y4 = [crop_job_of self cur tiled tp ch pos sl_idx]"
    by (auto simp: Let_def crop_job_of_def split: if_splits)
  with y4 assms(6) have "crop_job_of self cur tiled tp ch pos sl_idx \<in> set y3"
    unfolding concat_map_err_mem[OF y3] by (intro bexI[of _ sl_idx]) auto
  with y3 assms(4,5) have "crop_job_of self cur tiled tp ch pos sl_idx \<in> set y2"
    unfolding concat_map_err_mem[OF y2] by (intro bexI[of _ "(pos, sl_list)"]) auto
  with y2 assms(3) have "crop_job_of self cur tiled tp ch pos sl_idx \<in> set y1"
    unfolding concat_map_err_mem[OF y1] by (intro bexI[of _ "(ch, chd)"]) auto
  with y1 assms(2) show ?thesis
    unfolding concat_map_err_mem[OF 0] by (intro bexI[of _ "(tp, tp_dict)"]) auto
qed

lemma get_tile_indices_mem:
  "ti \<in> set (get_tile_indices self cur tp ch pos sl) \<longleftrightarrow>
     (\<exists>r0 \<in> set cur. channel_idx r0 = ch \<and> slice_idx r0 = sl \<and> pos_idx r0 = pos
         \<and> time_idx r0 = tp
         \<and> ti = (row_start r0, row_start r0 + fst (tile_size self),
                  col_start r0, col_start r0 + snd (tile_size self)))"
  by (auto simp: get_tile_indices_def)

lemma crop_job_records:
  "r \<in> set (crop_at_indices_save env (crop_job_of self cur tiled tp ch pos sl)) \<longleftrightarrow>
     (\<exists>ti \<in> set (get_tile_indices self cur tp tiled pos sl).
        r = \<lparr>time_idx = tp, channel_idx = ch, slice_idx = sl, pos_idx = pos,
             file_name = tile_file_name env tp ch sl pos ti,
             row_start = fst ti, col_start = fst (snd (snd ti))\<rparr>)"
  by (auto simp: crop_at_indices_save_def crop_job_of_def get_crop_tile_args_def)

lemma records_mem:
  assumes "tile_remaining_channels_records env self nested tiled cur = Inr recs"
    and "r \<in> set recs"
  shows "\<exists>tp tp_dict ch chd pos sl_list depth sl_idx r0.
             (tp, tp_dict) \<in> set nested \<and> (ch, chd) \<in> set tp_dict \<and> (pos, sl_list) \<in> set chd
             \<and> dict_get (channel_depth self) ch = Inr depth
             \<and> sl_idx \<in> set (adjust_slice_margins sl_list depth)
             \<and> ch \<in> set (channel_ids self)
             \<and> r0 \<in> set cur \<and> channel_idx r0 = tiled \<and> time_idx r0 = tp
             \<and> pos_idx r0 = pos \<and> slice_idx r0 = sl_idx
             \<and> time_idx r = tp \<and> channel_idx r = ch \<and> pos_idx r = pos \<and> slice_idx r = sl_idx
             \<and> row_start r = row_start r0 \<and> col_start r = col_start r0"
proof -
  from assms(1) obtain fn_args
    where fa: "tile_remaining_channels_fn_args self nested tiled cur = Inr fn_args"
      and recs: "recs = concat (mp_crop_save env fn_args)"
    by (auto simp: tile_remaining_channels_records_def pd_concat_def split: sum.splits if_splits)
  from assms(2) recs obtain a where a: "a \<in> set fn_args" "r \<in> set (crop_at_indices_save env a)"
    by (auto simp: mp_crop_save_def)
  from fn_args_mem[OF fa a(1)] obtain tp tp_dict ch chd pos sl_list depth sl_idx
    where l: "(tp, tp_dict) \<in> set nested" "(ch, chd) \<in> set tp_dict" "(pos, sl_list) \<in> set chd"
      "dict_get (channel_depth self) ch = Inr depth"
      "sl_idx \<in> set (adjust_slice_margins sl_list depth)"
      "ch \<in> set (channel_ids self)"
      and aj: "a = crop_job_of self cur tiled tp ch pos sl_idx"
    by blast
  from a(2) aj obtain ti where ti: "ti \<in> set (get_tile_indices self cur tp tiled pos sl_idx)"
    and r: "r = \<lparr>time_idx = tp, channel_idx = ch, slice_idx = sl_idx, pos_idx = pos,
             file_name = tile_file_name env tp ch sl_idx pos ti,
             row_start = fst ti, col_start = fst (snd (snd ti))\<rparr>"
    by (auto simp: crop_job_records)
  from ti obtain r0 where r0: "r0 \<in> set cur" "channel_idx r0 = tiled" "slice_idx r0 = sl_idx"
    "pos_idx r0 = pos" "time_idx r0 = tp"
    "ti = (row_start r0, row_start r0 + fst (tile_size self),
                  col_start r0, col_start r0 + snd (tile_size self))"
    by (auto simp: get_tile_indices_mem)
  from l r r0 show ?thesis
    by (intro exI[of _ tp] exI[of _ tp_dict] exI[of _ ch] exI[of _ chd] exI[of _ pos]
        exI[of _ sl_list] exI[of _ depth] exI[of _ sl_idx] exI[of _ r0]) simp
qed


lemma index_tree_hasI:
  "(tp, tp_dict) \<in> set tree \<Longrightarrow> (ch, chd) \<in> set tp_dict \<Longrightarrow> (pos, sl_list) \<in> set chd
     \<Longrightarrow> sl \<in> set sl_list \<Longrightarrow> index_tree_has tree tp ch pos sl"
  unfolding index_tree_has_def list_ex_iff by fastforce

lemma set_adjust_slice_margins: "set (adjust_slice_margins sl d) \<subseteq> set sl"
  by (auto simp: adjust_slice_margins_def Let_def)

lemma records_example:
  "tile_remaining_channels_records tile_env0 (tiler0\<lparr>channel_ids := [1]\<rparr>)
      [(0, [(1, [(0, [0, 1])])])] 0 [ref_tile 0 0 64, ref_tile 2 0 64] =
   Inr [\<lparr>time_idx = 0, channel_idx = 1, slice_idx = 0, pos_idx = 0,
         file_name = ''im_c1_z0_t0_r0_c64'', row_start = 0, col_start = 64\<rparr>]"
  by (simp add: tile_remaining_channels_records_def tile_remaining_channels_fn_args_def
      concat_map_err_def dict_get_def tiler0_def adjust_slice_margins_def get_tile_indices_def
      np_any_def ref_tile_def get_crop_tile_args_def mp_crop_save_def crop_at_indices_save_def
      pd_concat_def tile_env0_def str_int_def Let_def)

text \<open>
  C1.  When \<open>tile_remaining_channels\<close> returns, the table it has written
  consists of the rows of the already tiled metadata and of the new records,
  and every new record has the row and column origin of a record of the tiled
  (reference) channel in that metadata with the same time, position and slice
  index.  The new records come from cropping at looked-up coordinates only.
\<close>

theorem tile_remaining_channels_reference_origin:
  assumes "tile_remaining_channels env self nested tiled cur f = Inr f'"
  shows "\<exists>recs. tile_remaining_channels_records env self nested tiled cur = Inr recs
           \<and> csv_files f' (os_path_join (tile_dir self) ''frames_meta.csv'')
               = Some (sort_key file_name (cur @ recs))
           \<and> (\<forall>r \<in> set recs. \<exists>r0 \<in> set cur.
                 channel_idx r0 = tiled \<and> time_idx r0 = time_idx r \<and> pos_idx r0 = pos_idx r
               \<and> slice_idx r0 = slice_idx r
               \<and> row_start r0 = row_start r \<and> col_start r0 = col_start r)"
proof -
  from assms obtain recs
    where recs: "tile_remaining_channels_records env self nested tiled cur = Inr recs"
      and f': "f' = to_csv (os_path_join (tile_dir self) ''frames_meta.csv'')
                      (sort_key file_name (cur @ recs)) (save_tiles (tile_dir self) recs f)"
    by (auto simp: tile_remaining_channels_def Let_def split: sum.splits)
  have "\<exists>r0 \<in> set cur.
                 channel_idx r0 = tiled \<and> time_idx r0 = time_idx r \<and> pos_idx r0 = pos_idx r
               \<and> slice_idx r0 = slice_idx r
               \<and> row_start r0 = row_start r \<and> col_start r0 = col_start r" if "r \<in> set recs" for r
    using records_mem[OF recs that] by (elim exE conjE) (intro bexI, simp_all)
  with recs f' show ?thesis
    by (simp add: to_csv_def)
qed

theorem tile_remaining_channels_reference_origin_witness:
  "\<exists>recs. tile_remaining_channels_records tile_env0 (tiler0\<lparr>channel_ids := [1]\<rparr>)
             [(0, [(1, [(0, [0, 1])])])] 0 [ref_tile 0 0 64, ref_tile 2 0 64] = Inr recs
     \<and> recs \<noteq> []
     \<and> (\<forall>r \<in> set recs. \<exists>r0 \<in> set [ref_tile 0 0 64, ref_tile 2 0 64].
           channel_idx r0 = 0 \<and> time_idx r0 = time_idx r \<and> pos_idx r0 = pos_idx r
         \<and> slice_idx r0 = slice_idx r
         \<and> row_start r0 = row_start r \<and> col_start r0 = col_start r)"
proof -
  have "\<exists>f'. tile_remaining_channels tile_env0 (tiler0\<lparr>channel_ids := [1]\<rparr>)
             [(0, [(1, [(0, [0, 1])])])] 0 [ref_tile 0 0 64, ref_tile 2 0 64] fs0 = Inr f'"
    by (simp add: tile_remaining_channels_def records_example)
  then obtain f' where 1: "tile_remaining_channels tile_env0 (tiler0\<lparr>channel_ids := [1]\<rparr>)
             [(0, [(1, [(0, [0, 1])])])] 0 [ref_tile 0 0 64, ref_tile 2 0 64] fs0 = Inr f'"
    by blast
  from tile_remaining_channels_reference_origin[OF 1] show ?thesis
    by (auto simp: records_example)
qed

text \<open>
  C2.  When the records of \<open>tile_remaining_channels\<close> are produced, none of
  them lies at a time, position and slice at which the already tiled metadata
  has no record of the reference channel, and none of them lies at a time,
  channel, position and slice that is not a leaf of the index dictionary the
  function was given.  (When the function raises it produces no record at
  all.)
\<close>

theorem tile_remaining_channels_no_fabrication:
  assumes "tile_remaining_channels_records env self nested tiled cur = Inr recs"
  shows "(\<forall>tp pos sl.
            (\<forall>r0 \<in> set cur. \<not> (channel_idx r0 = tiled \<and> time_idx r0 = tp \<and> pos_idx r0 = pos
                                  \<and> slice_idx r0 = sl)) \<longrightarrow>
            (\<forall>r \<in> set recs. \<not> (time_idx r = tp \<and> pos_idx r = pos \<and> slice_idx r = sl)))
       \<and> (\<forall>tp ch pos sl.
            \<not> index_tree_has nested tp ch pos sl \<longrightarrow>
            (\<forall>r \<in> set recs. \<not> (time_idx r = tp \<and> channel_idx r = ch \<and> pos_idx r = pos
                                  \<and> slice_idx r = sl)))"
proof (intro conjI allI impI ballI)
  fix tp pos sl r
  assume no: "\<forall>r0 \<in> set cur. \<not> (channel_idx r0 = tiled \<and> time_idx r0 = tp \<and> pos_idx r0 = pos
                                  \<and> slice_idx r0 = sl)"
    and r: "r \<in> set recs"
  show "\<not> (time_idx r = tp \<and> pos_idx r = pos \<and> slice_idx r = sl)"
    using records_mem[OF assms r] no by metis
next
  fix tp ch pos sl r
  assume no: "\<not> index_tree_has nested tp ch pos sl" and r: "r \<in> set recs"
  from records_mem[OF assms r] obtain tp' tp_dict ch' chd pos' sl_list depth sl_idx
    where l: "(tp', tp_dict) \<in> set nested" "(ch', chd) \<in> set tp_dict" "(pos', sl_list) \<in> set chd"
      "sl_idx \<in> set (adjust_slice_margins sl_list depth)"
      "time_idx r = tp'" "channel_idx r = ch'" "pos_idx r = pos'" "slice_idx r = sl_idx"
    by blast
  from l(4) set_adjust_slice_margins have "sl_idx \<in> set sl_list" by blast
  with l have "index_tree_has nested (time_idx r) (channel_idx r) (pos_idx r) (slice_idx r)"
    by (auto intro: index_tree_hasI)
  with no show "\<not> (time_idx r = tp \<and> channel_idx r = ch \<and> pos_idx r = pos \<and> slice_idx r = sl)"
    by auto
qed

theorem tile_remaining_channels_no_fabrication_witness:
  "\<exists>recs. tile_remaining_channels_records tile_env0 (tiler0\<lparr>channel_ids := [1]\<rparr>)
             [(0, [(1, [(0, [0, 1])])])] 0 [ref_tile 0 0 64, ref_tile 2 0 64] = Inr recs
     \<and> recs \<noteq> []
     \<and> (\<forall>r0 \<in> set [ref_tile 0 0 64, ref_tile 2 0 64].
           \<not> (channel_idx r0 = 0 \<and> time_idx r0 = 0 \<and> pos_idx r0 = 0 \<and> slice_idx r0 = 1))
     \<and> (\<forall>r \<in> set recs. \<not> (time_idx r = 0 \<and> pos_idx r = 0 \<and> slice_idx r = 1))
     \<and> \<not> index_tree_has [(0, [(1, [(0, [0, 1])])])] 0 1 0 2
     \<and> (\<forall>r \<in> set recs.
           \<not> (time_idx r = 0 \<and> channel_idx r = 1 \<and> pos_idx r = 0 \<and> slice_idx r = 2))"
proof -
  let ?recs = "[\<lparr>time_idx = 0, channel_idx = 1, slice_idx = 0, pos_idx = 0,
         file_name = ''im_c1_z0_t0_r0_c64'', row_start = 0, col_start = 64\<rparr>] :: tile_rec list"
  have 1: "\<forall>r0 \<in> set [ref_tile 0 0 64, ref_tile 2 0 64].
         \<not> (channel_idx r0 = 0 \<and> time_idx r0 = 0 \<and> pos_idx r0 = 0 \<and> slice_idx r0 = 1)"
    by (simp add: ref_tile_def)
  have 2: "\<not> index_tree_has [(0, [(1, [(0, [0, 1])])])] 0 1 0 2"
    by (simp add: index_tree_has_def)
  note t = tile_remaining_channels_no_fabrication[OF records_example]
  note 3 = t[THEN conjunct1, THEN spec[where x = 0], THEN spec[where x = 0],
      THEN spec[where x = 1], THEN mp, OF 1]
  note 4 = t[THEN conjunct2, THEN spec[where x = 0], THEN spec[where x = 1],
      THEN spec[where x = 0], THEN spec[where x = 2], THEN mp, OF 2]
  show ?thesis
    apply (rule exI[of _ ?recs])
    apply (intro conjI)
         apply (rule records_example)
        apply simp
       apply (rule 1)
      apply (rule 3)
     apply (rule 2)
    apply (rule 4)
    done
qed

subsection \<open>The depth used for the slice margins\<close>

lemma adjust_slice_margins_mem:
  "k \<in> set (adjust_slice_margins sl d) \<longleftrightarrow>
     k \<in> set sl \<and> (\<forall>j. k - d div 2 \<le> j \<and> j \<le> k + d div 2 \<longrightarrow> j \<in> set sl)"
  by (auto simp: adjust_slice_margins_def Let_def list_all_iff)

lemma adjust_slice_margins_mono:
  assumes "d1 div 2 \<le> d2 div 2"
  shows "set (adjust_slice_margins sl d2) \<subseteq> set (adjust_slice_margins sl d1)"
proof
  fix k assume k: "k \<in> set (adjust_slice_margins sl d2)"
  show "k \<in> set (adjust_slice_margins sl d1)"
    unfolding adjust_slice_margins_mem
  proof (intro conjI allI impI)
    from k show "k \<in> set sl" by (simp add: adjust_slice_margins_mem)
  next
    fix j assume "k - d1 div 2 \<le> j \<and> j \<le> k + d1 div 2"
    with assms have "k - d2 div 2 \<le> j \<and> j \<le> k + d2 div 2" by linarith
    with k show "j \<in> set sl" by (simp add: adjust_slice_margins_mem)
  qed
qed

lemma adjust_slice_margins_strict:
  assumes "0 \<le> d1 div 2" "d1 div 2 < d2 div 2" "adjust_slice_margins sl d1 \<noteq> []"
  shows "set (adjust_slice_margins sl d2) \<subset> set (adjust_slice_margins sl d1)"
proof -
  let ?A = "set (adjust_slice_margins sl d1)"
  define k where "k = Min ?A"
  have fin: "finite ?A" "?A \<noteq> {}" using assms(3) by auto
  then have kA: "k \<in> ?A" and kmin: "\<And>x. x \<in> ?A \<Longrightarrow> k \<le> x"
    unfolding k_def by (auto intro: Min_in)
  have edge: "k - d1 div 2 - 1 \<notin> set sl"
  proof
    assume e: "k - d1 div 2 - 1 \<in> set sl"
    have "k - 1 \<in> ?A"
      unfolding adjust_slice_margins_mem
    proof (intro conjI allI impI)
      show "k - 1 \<in> set sl"
      proof (cases "d1 div 2 = 0")
        case True
        with e show ?thesis by simp
      next
        case False
        with assms(1) have "k - d1 div 2 \<le> k - 1 \<and> k - 1 \<le> k + d1 div 2" by linarith
        with kA show ?thesis unfolding adjust_slice_margins_mem by blast
      qed
    next
      fix j assume j: "k - 1 - d1 div 2 \<le> j \<and> j \<le> k - 1 + d1 div 2"
      show "j \<in> set sl"
      proof (cases "j = k - d1 div 2 - 1")
        case True
        with e show ?thesis by simp
      next
        case False
        with j have "k - d1 div 2 \<le> j \<and> j \<le> k + d1 div 2" by linarith
        with kA show ?thesis unfolding adjust_slice_margins_mem by blast
      qed
    qed
    from kmin[OF this] show False by simp
  qed
  have "k \<notin> set (adjust_slice_margins sl d2)"
  proof
    assume "k \<in> set (adjust_slice_margins sl d2)"
    moreover have "k - d2 div 2 \<le> k - d1 div 2 - 1 \<and> k - d1 div 2 - 1 \<le> k + d2 div 2"
      using assms(1,2) by linarith
    ultimately have "k - d1 div 2 - 1 \<in> set sl"
      unfolding adjust_slice_margins_mem by blast
    with edge show False by simp
  qed
  moreover have "set (adjust_slice_margins sl d2) \<subseteq> ?A"
    using assms(2) by (intro adjust_slice_margins_mono) simp
  ultimately show ?thesis using kA by blast
qed

lemma first_fn_args_mem:
  assumes "tile_first_channel_fn_args self ch0_ids d0 md is_mask = Inr fn_args"
    and "a \<in> set fn_args"
  shows "\<exists>tp tp_dict ch chd pos sl_list sl_idx.
             (tp, tp_dict) \<in> set ch0_ids \<and> (ch, chd) \<in> set tp_dict \<and> (pos, sl_list) \<in> set chd
             \<and> sl_idx \<in> set (adjust_slice_margins sl_list d0)
             \<and> a = get_crop_tile_args ch tp sl_idx pos ''tile'' md None"
proof -
  from assms(2) concat_map_err_mem[OF assms(1)[unfolded tile_first_channel_fn_args_def]]
  obtain tp tp_dict y where 1: "(tp, tp_dict) \<in> set ch0_ids" and a1: "a \<in> set y"
    and y1: "concat_map_err (\<lambda>(ch_idx, ch_dict).
         (case (if is_mask then Inr False
                else (case map_of (normalize_channels self) ch_idx of
                        None \<Rightarrow> Inl LookupError | Some b \<Rightarrow> Inr b)) of
            Inl e \<Rightarrow> Inl e
          | Inr normalize_im \<Rightarrow>
              Inr (concat (map (\<lambda>(pos_idx', sl_idx_list).
                     map (\<lambda>sl_idx.
                            get_crop_tile_args ch_idx tp sl_idx pos_idx' ''tile''
                              md None)
                       (adjust_slice_margins sl_idx_list d0))
                   ch_dict)))) tp_dict = Inr y"
    by auto
  from a1 concat_map_err_mem[OF y1]
  obtain ch chd z where 2: "(ch, chd) \<in> set tp_dict" and a2: "a \<in> set z"
    and y2: "(case (if is_mask then Inr False
                else (case map_of (normalize_channels self) ch of
                        None \<Rightarrow> Inl LookupError | Some b \<Rightarrow> Inr b)) of
            Inl e \<Rightarrow> Inl e
          | Inr normalize_im \<Rightarrow>
              Inr (concat (map (\<lambda>(pos_idx', sl_idx_list).
                     map (\<lambda>sl_idx.
                            get_crop_tile_args ch tp sl_idx pos_idx' ''tile''
                              md None)
                       (adjust_slice_margins sl_idx_list d0))
                   chd))) = Inr z"
    by auto
  from y2 have z: "z = concat (map (\<lambda>(pos_idx', sl_idx_list).
                     map (\<lambda>sl_idx.
                            get_crop_tile_args ch tp sl_idx pos_idx' ''tile''
                              md None)
                       (adjust_slice_margins sl_idx_list d0))
                   chd)"
    by (auto split: sum.splits if_splits option.splits)
  from a2[unfolded z] obtain pos sl_list sl_idx where "(pos, sl_list) \<in> set chd"
    "sl_idx \<in> set (adjust_slice_margins sl_list d0)"
    "a = get_crop_tile_args ch tp sl_idx pos ''tile'' md None"
    by auto
  with 1 2 show ?thesis by blast
qed

lemma np_any_nonempty: "np_any tis \<Longrightarrow> tis \<noteq> []"
  by (auto simp: np_any_def)

lemma records_complete:
  assumes "tile_remaining_channels_records env self nested tiled cur = Inr recs"
    and "(tp, tp_dict) \<in> set nested" "(ch, chd) \<in> set tp_dict" "(pos, sl_list) \<in> set chd"
    and "dict_get (channel_depth self) ch = Inr depth"
    and "sl_idx \<in> set (adjust_slice_margins sl_list depth)"
    and "np_any (get_tile_indices self cur tp tiled pos sl_idx)"
  shows "\<exists>r \<in> set recs. time_idx r = tp \<and> channel_idx r = ch \<and> pos_idx r = pos
            \<and> slice_idx r = sl_idx"
proof -
  from assms(1) obtain fn_args
    where fa: "tile_remaining_channels_fn_args self nested tiled cur = Inr fn_args"
      and recs: "recs = concat (mp_crop_save env fn_args)"
    by (auto simp: tile_remaining_channels_records_def pd_concat_def split: sum.splits if_splits)
  let ?a = "crop_job_of self cur tiled tp ch pos sl_idx"
  from fn_args_complete[OF fa assms(2-7)] have a: "?a \<in> set fn_args" .
  from np_any_nonempty[OF assms(7)] obtain ti
    where ti: "ti \<in> set (get_tile_indices self cur tp tiled pos sl_idx)"
    by (cases "get_tile_indices self cur tp tiled pos sl_idx") auto
  let ?r = "\<lparr>time_idx = tp, channel_idx = ch, slice_idx = sl_idx, pos_idx = pos,
             file_name = tile_file_name env tp ch sl_idx pos ti,
             row_start = fst ti, col_start = fst (snd (snd ti))\<rparr>"
  from ti have "?r \<in> set (crop_at_indices_save env ?a)"
    unfolding crop_job_records by blast
  with a recs have "?r \<in> set recs" by (auto simp: mp_crop_save_def)
  then show ?thesis by (intro bexI[of _ ?r]) simp_all
qed

lemma tile_stack_unfold:
  assumes "channel_ids self = c # cs" "dict_get (channel_depth self) c = Inr d"
    "nested_id_dict self = Some tree" "tile_stack_ids tree c = Inr (ch0, rest)"
  shows "tile_stack env self f =
           (case tile_first_channel env self ch0 d None False f of
              Inl e \<Rightarrow> (self, Inl e)
            | Inr (meta_df, f1) \<Rightarrow>
                (self\<lparr>channel_ids := cs\<rparr>,
                 if cs \<noteq> []
                 then tile_remaining_channels env (self\<lparr>channel_ids := cs\<rparr>) rest c meta_df f1
                 else Inr f1))"
  using assms by (simp add: tile_stack_def Let_def split: sum.splits prod.splits)

lemma adjust_example:
  "adjust_slice_margins [0, 1, 2] 1 = [0, 1, 2]" "adjust_slice_margins [0, 1, 2] 3 = [1]"
  by code_simp+

lemma records_depth_example:
  "tile_remaining_channels_records tile_env0 tiler_d3 [(0, [(1, [(0, [0, 1, 2])])])] 0
      [ref_tile 0 0 64, ref_tile 1 0 64, ref_tile 2 0 64] =
   Inr [\<lparr>time_idx = 0, channel_idx = 1, slice_idx = 1, pos_idx = 0,
         file_name = ''im_c1_z1_t0_r0_c64'', row_start = 0, col_start = 64\<rparr>]"
  by (simp add: tile_remaining_channels_records_def tile_remaining_channels_fn_args_def
      concat_map_err_def dict_get_def tiler0_def tiler_d3_def adjust_example get_tile_indices_def
      np_any_def ref_tile_def get_crop_tile_args_def mp_crop_save_def crop_at_indices_save_def
      pd_concat_def tile_env0_def str_int_def Let_def)

lemma first_fn_args_complete:
  assumes "tile_first_channel_fn_args self ch0_ids d0 md is_mask = Inr fn_args"
    and "(tp, tp_dict) \<in> set ch0_ids" "(ch, chd) \<in> set tp_dict" "(pos, sl_list) \<in> set chd"
    and "sl_idx \<in> set (adjust_slice_margins sl_list d0)"
  shows "get_crop_tile_args ch tp sl_idx pos ''tile'' md None \<in> set fn_args"
proof -
  let ?F1 = "\<lambda>tp. (\<lambda>(ch_idx, ch_dict).
         (case (if is_mask then Inr False
                else (case map_of (normalize_channels self) ch_idx of
                        None \<Rightarrow> Inl LookupError | Some b \<Rightarrow> Inr b)) of
            Inl e \<Rightarrow> Inl e
          | Inr normalize_im \<Rightarrow>
              Inr (concat (map (\<lambda>(pos_idx', sl_idx_list).
                     map (\<lambda>sl_idx.
                            get_crop_tile_args ch_idx tp sl_idx pos_idx' ''tile''
                              md None)
                       (adjust_slice_margins sl_idx_list d0))
                   ch_dict))))"
  let ?F0 = "\<lambda>(tp_idx, tp_dict). concat_map_err (?F1 tp_idx) tp_dict"
  let ?a = "get_crop_tile_args ch tp sl_idx pos ''tile'' md None"
  have 0: "concat_map_err ?F0 ch0_ids = Inr fn_args"
    using assms(1) by (simp add: tile_first_channel_fn_args_def)
  from concat_map_err_Inr_sub[OF 0 assms(2)] obtain y1
    where y1: "concat_map_err (?F1 tp) tp_dict = Inr y1" by auto
  from concat_map_err_Inr_sub[OF y1 assms(3)] obtain y2
    where y2: "?F1 tp (ch, chd) = Inr y2" by auto
  then have "y2 = concat (map (\<lambda>(pos_idx', sl_idx_list).
                     map (\<lambda>sl_idx.
                            get_crop_tile_args ch tp sl_idx pos_idx' ''tile''
                              md None)
                       (adjust_slice_margins sl_idx_list d0))
                   chd)"
    by (auto split: sum.splits if_splits option.splits)
  with assms(4,5) have "?a \<in> set y2" by force
  with y2 assms(3) have "?a \<in> set y1"
    unfolding concat_map_err_mem[OF y1] by (intro bexI[of _ "(ch, chd)"]) auto
  with y1 assms(2) show ?thesis
    unfolding concat_map_err_mem[OF 0] by (intro bexI[of _ "(tp, tp_dict)"]) auto
qed

lemma first_fn_args_iff:
  assumes "tile_first_channel_fn_args self ch0_ids d0 md is_mask = Inr fn_args"
  shows "a \<in> set fn_args \<longleftrightarrow>
           (\<exists>tp tp_dict ch chd pos sl_list sl_idx.
             (tp, tp_dict) \<in> set ch0_ids \<and> (ch, chd) \<in> set tp_dict \<and> (pos, sl_list) \<in> set chd
             \<and> sl_idx \<in> set (adjust_slice_margins sl_list d0)
             \<and> a = get_crop_tile_args ch tp sl_idx pos ''tile'' md None)"
  using first_fn_args_mem[OF assms] first_fn_args_complete[OF assms] by blast

lemma tile_first_channel_Inr:
  assumes "tile_first_channel env self ch0_ids d0 md is_mask f = Inr (df, f1)"
  shows "\<exists>fn_args dfs.
           tile_first_channel_fn_args self ch0_ids d0 md is_mask = Inr fn_args
         \<and> map_err (tile_image_save env) fn_args = Inr dfs
         \<and> dfs \<noteq> []
         \<and> df = sort_key file_name (concat dfs)
         \<and> csv_files f1 (os_path_join (tile_dir self) ''frames_meta.csv'') = Some df"
  using assms
  by (auto simp: tile_first_channel_def mp_tile_save_def pd_concat_def Let_def to_csv_def
      split: sum.splits if_splits)

lemma tile_stack_Inr:
  assumes "tile_stack env self f = (self', Inr f')"
  shows "\<exists>c cs d tree ch0 rest meta_df f1.
           channel_ids self = c # cs \<and> dict_get (channel_depth self) c = Inr d
         \<and> nested_id_dict self = Some tree \<and> tile_stack_ids tree c = Inr (ch0, rest)
         \<and> tile_first_channel env self ch0 d None False f = Inr (meta_df, f1)
         \<and> self' = self\<lparr>channel_ids := cs\<rparr>
         \<and> (if cs \<noteq> [] then tile_remaining_channels env self' rest c meta_df f1 = Inr f'
             else f' = f1)"
proof -
  from assms obtain c cs where cs: "channel_ids self = c # cs"
    by (cases "channel_ids self") (auto simp: tile_stack_def)
  from assms cs obtain d where d: "dict_get (channel_depth self) c = Inr d"
    by (cases "dict_get (channel_depth self) c") (auto simp: tile_stack_def)
  from assms cs d obtain tree where t: "nested_id_dict self = Some tree"
    by (cases "nested_id_dict self") (auto simp: tile_stack_def)
  from assms cs d t obtain ch0 rest where i: "tile_stack_ids tree c = Inr (ch0, rest)"
    by (cases "tile_stack_ids tree c") (auto simp: tile_stack_def)
  from assms cs d t i obtain meta_df f1
    where m: "tile_first_channel env self ch0 d None False f = Inr (meta_df, f1)"
    by (cases "tile_first_channel env self ch0 d None False f") (auto simp: tile_stack_def)
  from assms cs d t i m have "self' = self\<lparr>channel_ids := cs\<rparr>"
    and "if cs \<noteq> [] then tile_remaining_channels env self' rest c meta_df f1 = Inr f'
             else f' = f1"
    by (auto simp: tile_stack_def Let_def split: if_splits)
  with cs d t i m show ?thesis by blast
qed

lemma adjust_examples_d35:
  "adjust_slice_margins [1, 2, 3] 3 = [2]" "adjust_slice_margins [0, 1, 2, 3, 4] 5 = [2]"
  "adjust_slice_margins [0, 1] 3 = []" "adjust_slice_margins [0, 1] 5 = []"
  by code_simp+

lemma tile_first_channel_ref3:
  "\<exists>f1. tile_first_channel tile_env0 tiler_ref3 [(0, [(0, [(0, [0, 1, 2])])])] 3 None False fs0 =
     Inr ([ref_tile 1 0 0], f1)"
  by (simp add: tile_first_channel_def tile_first_channel_fn_args_def concat_map_err_def
      tiler0_def tiler_ref3_def adjust_example mp_tile_save_def tile_env0_def
      get_crop_tile_args_def pd_concat_def str_int_def Let_def ref_tile_def)

lemma tile_stack_ref3:
  "\<exists>f'. tile_stack tile_env0 tiler_ref3 fs0 = (tiler_ref3\<lparr>channel_ids := []\<rparr>, Inr f')"
proof -
  have 1: "tile_stack_ids [(0, [(0, [(0, [0, 1, 2])])])] 0 =
     Inr ([(0, [(0, [(0, [0, 1, 2])])])], [(0, [])])"
    by (simp add: tile_stack_ids_def dict_get_def dict_del_def)
  have 5: "channel_ids tiler_ref3 = [0]" "dict_get (channel_depth tiler_ref3) 0 = Inr 3"
    "nested_id_dict tiler_ref3 = Some [(0, [(0, [(0, [0, 1, 2])])])]"
    by (simp_all add: tiler_ref3_def tiler0_def dict_get_def)
  from tile_first_channel_ref3 obtain f1
    where 3: "tile_first_channel tile_env0 tiler_ref3 [(0, [(0, [(0, [0, 1, 2])])])] 3 None
                False fs0 = Inr ([ref_tile 1 0 0], f1)"
    by blast
  show ?thesis
    by (simp add: tile_stack_def 1 3 5 Let_def)
qed

text \<open>
  C6, as the code has it.  Every record \<open>tile_remaining_channels\<close>
  produces lies at a slice that \<open>adjust_slice_margins\<close> retains from the
  slice list of the record's own channel for the depth \<open>channel_depth\<close>
  gives that channel, and every such slice at which the reference channel has
  tiles gets a record.  The jobs \<open>tile_first_channel\<close> runs are exactly the
  leaves of its index dictionary at the slices retained for the depth it is
  given, and the table it returns and writes is made of the results of these
  jobs; a completed \<open>tile_stack\<close> has called it with the depth
  \<open>channel_depth\<close> gives the reference channel, the first of
  \<open>channel_ids\<close>.  Of two depths whose margins differ the deeper one
  retains strictly fewer slices of one slice list, provided the shallower one
  retains any.
\<close>

theorem slice_margins_own_depth:
  "(tile_remaining_channels_records env self nested tiled cur = Inr recs \<longrightarrow>
      (\<forall>r \<in> set recs. \<exists>tp_dict chd sl_list depth.
          (time_idx r, tp_dict) \<in> set nested \<and> (channel_idx r, chd) \<in> set tp_dict
        \<and> (pos_idx r, sl_list) \<in> set chd
        \<and> dict_get (channel_depth self) (channel_idx r) = Inr depth
        \<and> slice_idx r \<in> set (adjust_slice_margins sl_list depth))
    \<and> (\<forall>tp tp_dict ch chd pos sl_list depth sl.
          (tp, tp_dict) \<in> set nested \<longrightarrow> (ch, chd) \<in> set tp_dict \<longrightarrow>
          (pos, sl_list) \<in> set chd \<longrightarrow>
          dict_get (channel_depth self) ch = Inr depth \<longrightarrow>
          sl \<in> set (adjust_slice_margins sl_list depth) \<longrightarrow>
          np_any (get_tile_indices self cur tp tiled pos sl) \<longrightarrow>
          (\<exists>r \<in> set recs. time_idx r = tp \<and> channel_idx r = ch \<and> pos_idx r = pos
              \<and> slice_idx r = sl)))
   \<and> (tile_first_channel env self ch0_ids d0 md is_mask f = Inr (df, f1) \<longrightarrow>
       (\<exists>fn_args dfs.
           tile_first_channel_fn_args self ch0_ids d0 md is_mask = Inr fn_args
         \<and> (\<forall>a. a \<in> set fn_args \<longleftrightarrow>
               (\<exists>tp tp_dict ch chd pos sl_list sl.
                   (tp, tp_dict) \<in> set ch0_ids \<and> (ch, chd) \<in> set tp_dict
                 \<and> (pos, sl_list) \<in> set chd
                 \<and> sl \<in> set (adjust_slice_margins sl_list d0)
                 \<and> a = get_crop_tile_args ch tp sl pos ''tile'' md None))
         \<and> map_err (tile_image_save env) fn_args = Inr dfs
         \<and> df = sort_key file_name (concat dfs)
         \<and> csv_files f1 (os_path_join (tile_dir self) ''frames_meta.csv'') = Some df))
   \<and> (tile_stack env self f = (self', Inr f') \<longrightarrow>
       (\<exists>c cs d tree ch0 rest meta_df f2.
           channel_ids self = c # cs \<and> dict_get (channel_depth self) c = Inr d
         \<and> nested_id_dict self = Some tree \<and> tile_stack_ids tree c = Inr (ch0, rest)
         \<and> tile_first_channel env self ch0 d None False f = Inr (meta_df, f2)
         \<and> self' = self\<lparr>channel_ids := cs\<rparr>
         \<and> (if cs \<noteq> [] then tile_remaining_channels env self' rest c meta_df f2 = Inr f'
             else f' = f2)))
   \<and> (0 \<le> d1 div 2 \<longrightarrow> d1 div 2 < d2 div 2 \<longrightarrow> adjust_slice_margins sl d1 \<noteq> [] \<longrightarrow>
        set (adjust_slice_margins sl d2) \<subset> set (adjust_slice_margins sl d1))"
proof (intro conjI impI)
  assume r: "tile_remaining_channels_records env self nested tiled cur = Inr recs"
  show "\<forall>r \<in> set recs. \<exists>tp_dict chd sl_list depth.
          (time_idx r, tp_dict) \<in> set nested \<and> (channel_idx r, chd) \<in> set tp_dict
        \<and> (pos_idx r, sl_list) \<in> set chd
        \<and> dict_get (channel_depth self) (channel_idx r) = Inr depth
        \<and> slice_idx r \<in> set (adjust_slice_margins sl_list depth)"
  proof
    fix x assume "x \<in> set recs"
    from records_mem[OF r this] show "\<exists>tp_dict chd sl_list depth.
          (time_idx x, tp_dict) \<in> set nested \<and> (channel_idx x, chd) \<in> set tp_dict
        \<and> (pos_idx x, sl_list) \<in> set chd
        \<and> dict_get (channel_depth self) (channel_idx x) = Inr depth
        \<and> slice_idx x \<in> set (adjust_slice_margins sl_list depth)"
      by (elim exE conjE) (intro exI conjI, simp_all)
  qed
  show "\<forall>tp tp_dict ch chd pos sl_list depth sl.
          (tp, tp_dict) \<in> set nested \<longrightarrow> (ch, chd) \<in> set tp_dict \<longrightarrow>
          (pos, sl_list) \<in> set chd \<longrightarrow>
          dict_get (channel_depth self) ch = Inr depth \<longrightarrow>
          sl \<in> set (adjust_slice_margins sl_list depth) \<longrightarrow>
          np_any (get_tile_indices self cur tp tiled pos sl) \<longrightarrow>
          (\<exists>r \<in> set recs. time_idx r = tp \<and> channel_idx r = ch \<and> pos_idx r = pos
              \<and> slice_idx r = sl)"
    using records_complete[OF r] by blast
next
  assume "tile_first_channel env self ch0_ids d0 md is_mask f = Inr (df, f1)"
  from tile_first_channel_Inr[OF this] obtain fn_args dfs
    where fa: "tile_first_channel_fn_args self ch0_ids d0 md is_mask = Inr fn_args"
      and rest: "map_err (tile_image_save env) fn_args = Inr dfs"
        "df = sort_key file_name (concat dfs)"
        "csv_files f1 (os_path_join (tile_dir self) ''frames_meta.csv'') = Some df"
    by blast
  from first_fn_args_iff[OF fa] fa rest
  show "\<exists>fn_args dfs.
           tile_first_channel_fn_args self ch0_ids d0 md is_mask = Inr fn_args
         \<and> (\<forall>a. a \<in> set fn_args \<longleftrightarrow>
               (\<exists>tp tp_dict ch chd pos sl_list sl.
                   (tp, tp_dict) \<in> set ch0_ids \<and> (ch, chd) \<in> set tp_dict
                 \<and> (pos, sl_list) \<in> set chd
                 \<and> sl \<in> set (adjust_slice_margins sl_list d0)
                 \<and> a = get_crop_tile_args ch tp sl pos ''tile'' md None))
         \<and> map_err (tile_image_save env) fn_args = Inr dfs
         \<and> df = sort_key file_name (concat dfs)
         \<and> csv_files f1 (os_path_join (tile_dir self) ''frames_meta.csv'') = Some df"
    by (intro exI[of _ fn_args] exI[of _ dfs]) simp
next
  assume "tile_stack env self f = (self', Inr f')"
  from tile_stack_Inr[OF this]
  show "\<exists>c cs d tree ch0 rest meta_df f2.
           channel_ids self = c # cs \<and> dict_get (channel_depth self) c = Inr d
         \<and> nested_id_dict self = Some tree \<and> tile_stack_ids tree c = Inr (ch0, rest)
         \<and> tile_first_channel env self ch0 d None False f = Inr (meta_df, f2)
         \<and> self' = self\<lparr>channel_ids := cs\<rparr>
         \<and> (if cs \<noteq> [] then tile_remaining_channels env self' rest c meta_df f2 = Inr f'
             else f' = f2)" .
next
  assume "0 \<le> d1 div 2" "d1 div 2 < d2 div 2" "adjust_slice_margins sl d1 \<noteq> []"
  from adjust_slice_margins_strict[OF this]
  show "set (adjust_slice_margins sl d2) \<subset> set (adjust_slice_margins sl d1)" .
qed

theorem slice_margins_own_depth_witness:
  "\<exists>recs f1 f'.
       tile_remaining_channels_records tile_env0 tiler_d3 [(0, [(1, [(0, [0, 1, 2])])])] 0
         [ref_tile 0 0 64, ref_tile 1 0 64, ref_tile 2 0 64] = Inr recs
     \<and> (\<exists>r \<in> set recs. time_idx r = 0 \<and> channel_idx r = 1 \<and> pos_idx r = 0 \<and> slice_idx r = 1)
     \<and> (\<forall>r \<in> set recs. slice_idx r \<in> set (adjust_slice_margins [0, 1, 2] 3))
     \<and> tile_first_channel tile_env0 tiler_ref3 [(0, [(0, [(0, [0, 1, 2])])])] 3 None False fs0 =
         Inr ([ref_tile 1 0 0], f1)
     \<and> (\<exists>fn_args. tile_first_channel_fn_args tiler_ref3 [(0, [(0, [(0, [0, 1, 2])])])] 3 None
                      False = Inr fn_args
           \<and> get_crop_tile_args 0 0 1 0 ''tile'' None None \<in> set fn_args
           \<and> get_crop_tile_args 0 0 0 0 ''tile'' None None \<notin> set fn_args)
     \<and> tile_stack tile_env0 tiler_ref3 fs0 = (tiler_ref3\<lparr>channel_ids := []\<rparr>, Inr f')
     \<and> (\<exists>d ch0 rest meta_df.
           dict_get (channel_depth tiler_ref3) (hd (channel_ids tiler_ref3)) = Inr d \<and> d = 3
         \<and> tile_stack_ids [(0, [(0, [(0, [0, 1, 2])])])] 0 = Inr (ch0, rest)
         \<and> tile_first_channel tile_env0 tiler_ref3 ch0 d None False fs0 = Inr (meta_df, f'))
     \<and> set (adjust_slice_margins [0, 1, 2] 3) \<subset> set (adjust_slice_margins [0, 1, 2] 1)"
proof -
  let ?tree = "[(0, [(1, [(0, [0, 1, 2])])])] :: index_tree"
  let ?ch0 = "[(0, [(0, [(0, [0, 1, 2])])])] :: index_tree"
  let ?cur = "[ref_tile 0 0 64, ref_tile 1 0 64, ref_tile 2 0 64]"
  let ?recs = "[\<lparr>time_idx = 0, channel_idx = 1, slice_idx = 1, pos_idx = 0,
         file_name = ''im_c1_z1_t0_r0_c64'', row_start = 0, col_start = 64\<rparr>] :: tile_rec list"
  from tile_first_channel_ref3 obtain f1
    where fc: "tile_first_channel tile_env0 tiler_ref3 ?ch0 3 None False fs0 =
                 Inr ([ref_tile 1 0 0], f1)"
    by blast
  from tile_stack_ref3 obtain f'
    where ts: "tile_stack tile_env0 tiler_ref3 fs0 = (tiler_ref3\<lparr>channel_ids := []\<rparr>, Inr f')"
    by blast
  note t = slice_margins_own_depth[where env = tile_env0 and self = tiler_d3 and nested = ?tree
      and tiled = 0 and cur = ?cur and recs = ?recs and ?d1.0 = 1 and ?d2.0 = 3
      and sl = "[0, 1, 2]"]
  note u = slice_margins_own_depth[where env = tile_env0 and self = tiler_ref3
      and ?ch0_ids = ?ch0 and ?d0.0 = 3 and md = None and is_mask = False and f = fs0
      and df = "[ref_tile 1 0 0]" and ?f1.0 = f1 and self' = "tiler_ref3\<lparr>channel_ids := []\<rparr>"
      and f' = f']
  \<comment> \<open>the propagation phase\<close>
  note t1 = t[THEN conjunct1, THEN mp, OF records_depth_example]
  have d: "dict_get (channel_depth tiler_d3) 1 = Inr 3"
    by (simp add: dict_get_def tiler_d3_def)
  have a: "(1::int) \<in> set (adjust_slice_margins [0, 1, 2] 3)"
    by (simp add: adjust_example)
  have n: "np_any (get_tile_indices tiler_d3 ?cur 0 0 0 1)"
    by (simp add: np_any_def get_tile_indices_def ref_tile_def tiler_d3_def tiler0_def)
  have m: "(0, [(1, [(0, [0, 1, 2])])]) \<in> set ?tree"
    "(1, [(0, [0, 1, 2])]) \<in> set [(1::int, [(0::int, [0, 1, 2::int])])]"
    "(0, [0, 1, 2]) \<in> set [(0::int, [0, 1, 2::int])]"
    by simp_all
  note 2 = t1[THEN conjunct2, rule_format, OF m d a n]
  have 3: "\<forall>r \<in> set ?recs. slice_idx r \<in> set (adjust_slice_margins [0, 1, 2] 3)"
    by (simp add: adjust_example)
  \<comment> \<open>the reference phase\<close>
  from u[THEN conjunct2, THEN conjunct1, THEN mp, OF fc] obtain fn_args
    where fa: "tile_first_channel_fn_args tiler_ref3 ?ch0 3 None False = Inr fn_args"
      and iff: "\<And>a. a \<in> set fn_args \<longleftrightarrow>
               (\<exists>tp tp_dict ch chd pos sl_list sl.
                   (tp, tp_dict) \<in> set ?ch0 \<and> (ch, chd) \<in> set tp_dict
                 \<and> (pos, sl_list) \<in> set chd
                 \<and> sl \<in> set (adjust_slice_margins sl_list 3)
                 \<and> a = get_crop_tile_args ch tp sl pos ''tile'' None None)"
    by blast
  have in1: "get_crop_tile_args 0 0 1 0 ''tile'' None None \<in> set fn_args"
    unfolding iff by (simp add: adjust_example)
  have out0: "get_crop_tile_args 0 0 0 0 ''tile'' None None \<notin> set fn_args"
    unfolding iff by (simp add: adjust_example get_crop_tile_args_def)
  \<comment> \<open>the depth \<open>tile_stack\<close> passes\<close>
  from u[THEN conjunct2, THEN conjunct2, THEN conjunct1, THEN mp, OF ts]
  obtain c cs d' tree ch0 rest meta_df f2
    where s: "channel_ids tiler_ref3 = c # cs" "dict_get (channel_depth tiler_ref3) c = Inr d'"
      "nested_id_dict tiler_ref3 = Some tree" "tile_stack_ids tree c = Inr (ch0, rest)"
      "tile_first_channel tile_env0 tiler_ref3 ch0 d' None False fs0 = Inr (meta_df, f2)"
      "if cs \<noteq> [] then tile_remaining_channels tile_env0 (tiler_ref3\<lparr>channel_ids := []\<rparr>)
                          rest c meta_df f2 = Inr f'
       else f' = f2"
    by blast
  have ci: "channel_ids tiler_ref3 = [0]" "nested_id_dict tiler_ref3 = Some ?ch0"
    "dict_get (channel_depth tiler_ref3) 0 = Inr 3"
    by (simp_all add: tiler_ref3_def tiler0_def dict_get_def)
  from s(1) ci(1) have c: "c = 0" "cs = []" by simp_all
  from s(3) ci(2) have tree: "tree = ?ch0" by simp
  from s(2) c ci(3) have d': "d' = 3" by simp
  from s(6) c have f2: "f2 = f'" by simp
  have 5: "\<exists>d ch0 rest meta_df.
           dict_get (channel_depth tiler_ref3) (hd (channel_ids tiler_ref3)) = Inr d \<and> d = 3
         \<and> tile_stack_ids ?ch0 0 = Inr (ch0, rest)
         \<and> tile_first_channel tile_env0 tiler_ref3 ch0 d None False fs0 = Inr (meta_df, f')"
    using s(4,5) ci c tree d' f2 by auto
  \<comment> \<open>two depths on one slice list\<close>
  have h: "(0::int) \<le> 1 div 2" "(1::int) div 2 < 3 div 2" "adjust_slice_margins [0, 1, 2] 1 \<noteq> []"
    by (simp_all add: adjust_example)
  note 6 = t[THEN conjunct2, THEN conjunct2, THEN conjunct2, rule_format, OF h]
  show ?thesis
    apply (rule exI[of _ ?recs])
    apply (rule exI[of _ f1])
    apply (rule exI[of _ f'])
    apply (intro conjI)
           apply (rule records_depth_example)
          apply (rule 2)
         apply (rule 3)
        apply (rule fc)
       apply (rule exI[of _ fn_args])
       apply (intro conjI)
         apply (rule fa)
        apply (rule in1)
       apply (rule out0)
      apply (rule ts)
     apply (rule 5)
    apply (rule 6)
    done
qed

text \<open>
  C6 as stated fails in its last clause: channels of different depths that
  share time and position can have the same valid slices.  Channel 1 (depth 3,
  slices 1 to 3) and channel 2 (depth 5, slices 0 to 4) both get their records
  at slice 2 only; and on the slice list 0, 1 the depths 3 and 5 both retain
  nothing.
\<close>

theorem different_depths_same_slices_counterexample:
  "tile_remaining_channels_records tile_env0 tiler_d35
      [(0, [(1, [(0, [1, 2, 3])]), (2, [(0, [0, 1, 2, 3, 4])])])] 0
      [ref_tile 0 0 64, ref_tile 1 0 64, ref_tile 2 0 64, ref_tile 3 0 64, ref_tile 4 0 64] =
     Inr [\<lparr>time_idx = 0, channel_idx = 1, slice_idx = 2, pos_idx = 0,
           file_name = ''im_c1_z2_t0_r0_c64'', row_start = 0, col_start = 64\<rparr>,
          \<lparr>time_idx = 0, channel_idx = 2, slice_idx = 2, pos_idx = 0,
           file_name = ''im_c2_z2_t0_r0_c64'', row_start = 0, col_start = 64\<rparr>]
   \<and> dict_get (channel_depth tiler_d35) 1 = Inr 3
   \<and> dict_get (channel_depth tiler_d35) 2 = Inr 5
   \<and> adjust_slice_margins [1, 2, 3] 3 = adjust_slice_margins [0, 1, 2, 3, 4] 5
   \<and> adjust_slice_margins [0, 1] 3 = adjust_slice_margins [0, 1] 5"
  by (simp add: tile_remaining_channels_records_def tile_remaining_channels_fn_args_def
      concat_map_err_def dict_get_def tiler0_def tiler_d35_def adjust_examples_d35
      get_tile_indices_def np_any_def ref_tile_def get_crop_tile_args_def mp_crop_save_def
      crop_at_indices_save_def pd_concat_def tile_env0_def str_int_def Let_def)

end
